theory Spec2Isabelle
  imports Complex_Main
begin

section \<open>Numbers, errors and arrays\<close>

text \<open>
  The arrays of \<^verbatim>\<open>score_array.py\<close> hold IEEE-754 doubles. They are modelled by their
  values: a finite double is the real number it stands for, and the three special values
  are kept, because \<^verbatim>\<open>reindex\<close> relies on \<^verbatim>\<open>log(0) = -inf\<close> and defaults its fill value
  to NaN. Two NaNs are the same value here, so equality of evaluated matrices is equality
  of their entries; the sign of zero is not kept. The sums and products of the matrix
  product and of the element-wise operators, and \<^verbatim>\<open>np.exp\<close>, are taken without rounding.
  Where the result of the code depends on rounding, the rounding is a parameter: the
  logarithm of \<^verbatim>\<open>reindex\<close> below, and the divisions and the product of \<^verbatim>\<open>get_batch_size\<close>.
\<close>

datatype fp = Fin real | PInf | NInf | NaN

fun fadd :: "fp \<Rightarrow> fp \<Rightarrow> fp" where
  "fadd NaN _ = NaN"
| "fadd _ NaN = NaN"
| "fadd (Fin a) (Fin b) = Fin (a + b)"
| "fadd (Fin _) PInf = PInf"
| "fadd (Fin _) NInf = NInf"
| "fadd PInf (Fin _) = PInf"
| "fadd NInf (Fin _) = NInf"
| "fadd PInf PInf = PInf"
| "fadd NInf NInf = NInf"
| "fadd PInf NInf = NaN"
| "fadd NInf PInf = NaN"

fun fneg :: "fp \<Rightarrow> fp" where
  "fneg (Fin a) = Fin (- a)"
| "fneg PInf = NInf"
| "fneg NInf = PInf"
| "fneg NaN = NaN"

fun fmul :: "fp \<Rightarrow> fp \<Rightarrow> fp" where
  "fmul NaN _ = NaN"
| "fmul _ NaN = NaN"
| "fmul (Fin a) (Fin b) = Fin (a * b)"
| "fmul (Fin a) PInf = (if a = 0 then NaN else if 0 < a then PInf else NInf)"
| "fmul (Fin a) NInf = (if a = 0 then NaN else if 0 < a then NInf else PInf)"
| "fmul PInf (Fin b) = (if b = 0 then NaN else if 0 < b then PInf else NInf)"
| "fmul NInf (Fin b) = (if b = 0 then NaN else if 0 < b then NInf else PInf)"
| "fmul PInf PInf = PInf"
| "fmul NInf NInf = PInf"
| "fmul PInf NInf = NInf"
| "fmul NInf PInf = NInf"

fun fdiv :: "fp \<Rightarrow> fp \<Rightarrow> fp" where
  "fdiv NaN _ = NaN"
| "fdiv _ NaN = NaN"
| "fdiv (Fin a) (Fin b) =
     (if b = 0 then (if a = 0 then NaN else if 0 < a then PInf else NInf) else Fin (a / b))"
| "fdiv (Fin _) PInf = Fin 0"
| "fdiv (Fin _) NInf = Fin 0"
| "fdiv PInf (Fin b) = (if 0 \<le> b then PInf else NInf)"
| "fdiv NInf (Fin b) = (if 0 \<le> b then NInf else PInf)"
| "fdiv _ _ = NaN"

text \<open>
  \<^verbatim>\<open>np.exp\<close> and \<^verbatim>\<open>np.log\<close>. The logarithm of zero is \<^verbatim>\<open>-inf\<close> (numpy warns, and
  \<^verbatim>\<open>reindex\<close> silences the warning); the logarithm of a negative number is NaN. On a
  positive number \<^verbatim>\<open>np.log\<close> returns a double close to the logarithm: which one is the
  parameter \<open>lg\<close>, the logarithm of the platform on the positive doubles. Nothing is
  assumed of it; what IEEE 754 fixes, \<^verbatim>\<open>log(1) = 0\<close>, is a hypothesis where it is needed.
\<close>

fun fexp :: "fp \<Rightarrow> fp" where
  "fexp (Fin a) = Fin (exp a)"
| "fexp PInf = PInf"
| "fexp NInf = Fin 0"
| "fexp NaN = NaN"

fun flog :: "(real \<Rightarrow> real) \<Rightarrow> fp \<Rightarrow> fp" where
  "flog lg (Fin a) = (if a = 0 then NInf else if 0 < a then Fin (lg a) else NaN)"
| "flog lg PInf = PInf"
| "flog lg NInf = NaN"
| "flog lg NaN = NaN"

text \<open>The comparisons \<^verbatim>\<open>a > b\<close> and \<^verbatim>\<open>a < b\<close>: false as soon as one side is NaN.\<close>

fun fgt :: "fp \<Rightarrow> fp \<Rightarrow> bool" where
  "fgt NaN _ = False"
| "fgt _ NaN = False"
| "fgt (Fin a) (Fin b) = (b < a)"
| "fgt _ PInf = False"
| "fgt NInf _ = False"
| "fgt PInf _ = True"
| "fgt (Fin _) NInf = True"

definition flt :: "fp \<Rightarrow> fp \<Rightarrow> bool" where
  "flt a b = fgt b a"

text \<open>\<^verbatim>\<open>np.maximum\<close> and \<^verbatim>\<open>np.minimum\<close>, the element operations behind \<^verbatim>\<open>ndarray.max\<close>,
  \<^verbatim>\<open>ndarray.min\<close> and \<^verbatim>\<open>ndarray.clip\<close>: a NaN operand gives NaN.\<close>

definition np_maximum :: "fp \<Rightarrow> fp \<Rightarrow> fp" where
  "np_maximum a b = (if a = NaN \<or> b = NaN then NaN else if fgt b a then b else a)"

definition np_minimum :: "fp \<Rightarrow> fp \<Rightarrow> fp" where
  "np_minimum a b = (if a = NaN \<or> b = NaN then NaN else if flt b a then b else a)"

text \<open>The exceptions the modelled code can raise.\<close>

datatype error =
    AssertionError
  | IndexError
  | ValueError
  | TypeError
  | AttributeError
  | ZeroDivisionError
  | OverflowError
  | NotImplementedError

text \<open>A list comprehension whose body may raise: the first exception, from the left, wins.\<close>

fun collect :: "(error + 'a) list \<Rightarrow> error + 'a list" where
  "collect [] = Inr []"
| "collect (x # xs) =
     (case x of
        Inl e \<Rightarrow> Inl e
      | Inr v \<Rightarrow> (case collect xs of Inl e \<Rightarrow> Inl e | Inr vs \<Rightarrow> Inr (v # vs)))"

text \<open>
  A two-dimensional numpy array: its rows, and the number of columns, which a numpy array
  keeps even when it has no row (\<^verbatim>\<open>shape[1]\<close>). Every row of an array has \<open>ncols\<close> entries.
\<close>

record ndarray =
  ncols :: nat
  rows :: "fp list list"

definition rectangular :: "ndarray \<Rightarrow> bool" where
  "rectangular A = list_all (\<lambda>r. length r = ncols A) (rows A)"

fun is_finite :: "fp \<Rightarrow> bool" where
  "is_finite (Fin _) = True"
| "is_finite _ = False"

definition all_finite :: "ndarray \<Rightarrow> bool" where
  "all_finite A = list_all (list_all is_finite) (rows A)"

definition shape0 :: "ndarray \<Rightarrow> nat" where
  "shape0 A = length (rows A)"

definition shape1 :: "ndarray \<Rightarrow> nat" where
  "shape1 A = ncols A"

definition map_array :: "(fp \<Rightarrow> fp) \<Rightarrow> ndarray \<Rightarrow> ndarray" where
  "map_array f A = \<lparr>ncols = ncols A, rows = map (map f) (rows A)\<rparr>"

text \<open>\<^verbatim>\<open>A.T\<close>\<close>

definition transpose_array :: "ndarray \<Rightarrow> ndarray" where
  "transpose_array A =
     \<lparr>ncols = length (rows A), rows = map (\<lambda>j. map (\<lambda>r. r ! j) (rows A)) [0..<ncols A]\<rparr>"

text \<open>\<^verbatim>\<open>A @ B\<close>: the inner dimensions must agree.\<close>

definition dot :: "fp list \<Rightarrow> fp list \<Rightarrow> fp" where
  "dot xs ys = foldl fadd (Fin 0) (map2 fmul xs ys)"

definition matmul :: "ndarray \<Rightarrow> ndarray \<Rightarrow> error + ndarray" where
  "matmul A B =
     (if ncols A \<noteq> length (rows B) then Inl ValueError
      else Inr \<lparr>ncols = ncols B,
                rows = map (\<lambda>r. map (\<lambda>j. dot r (map (\<lambda>b. b ! j) (rows B))) [0..<ncols B]) (rows A)\<rparr>)"

text \<open>
  \<^verbatim>\<open>xs[key]\<close> for a sequence of integers \<open>key\<close>, along the first axis (numpy and pandas
  integer-array indexing): a negative index counts from the end, an index out of range raises.
\<close>

definition index_rows :: "'a list \<Rightarrow> int list \<Rightarrow> error + 'a list" where
  "index_rows xs key =
     collect (map (\<lambda>k. let n = int (length xs)
                        in if - n \<le> k \<and> k < n then Inr (xs ! nat (if k < 0 then k + n else k))
                           else Inl IndexError) key)"

definition array_getitem :: "ndarray \<Rightarrow> int list \<Rightarrow> error + ndarray" where
  "array_getitem A key =
     (case index_rows (rows A) key of
        Inl e \<Rightarrow> Inl e
      | Inr rs \<Rightarrow> Inr \<lparr>ncols = ncols A, rows = rs\<rparr>)"

text \<open>\<^verbatim>\<open>np.vstack\<close>: at least one array, all with the same number of columns.\<close>

definition np_vstack :: "ndarray list \<Rightarrow> error + ndarray" where
  "np_vstack D =
     (case D of
        [] \<Rightarrow> Inl ValueError
      | A # _ \<Rightarrow>
          if list_all (\<lambda>B. ncols B = ncols A) D
          then Inr \<lparr>ncols = ncols A, rows = concat (map rows D)\<rparr>
          else Inl ValueError)"

text \<open>\<^verbatim>\<open>np.pad(A, ((0, below), (0, right)), constant_values=c)\<close>\<close>

definition np_pad :: "ndarray \<Rightarrow> nat \<Rightarrow> nat \<Rightarrow> fp \<Rightarrow> ndarray" where
  "np_pad A below right c =
     \<lparr>ncols = ncols A + right,
      rows = map (\<lambda>r. r @ replicate right c) (rows A)
             @ replicate below (replicate (ncols A + right) c)\<rparr>"

text \<open>\<^verbatim>\<open>A[-1, -1] = v\<close>\<close>

definition set_last :: "ndarray \<Rightarrow> fp \<Rightarrow> error + ndarray" where
  "set_last A v =
     (if rows A = [] \<or> ncols A = 0 then Inl IndexError
      else Inr \<lparr>ncols = ncols A,
                rows = (rows A)[length (rows A) - 1 := (last (rows A))[ncols A - 1 := v]]\<rparr>)"

section \<open>The batch-size heuristic\<close>

text \<open>
  \<^verbatim>\<open>get_batch_size(shape, frac)\<close>. The accelerator is a parameter: \<open>None\<close> when
  \<^verbatim>\<open>torch.cuda.device_count()\<close> is zero, \<open>Some m\<close> when device 0 reports \<open>m\<close> bytes.

  The arithmetic is that of Python floats. Every division and the product round their exact
  result to a double; the rounding is the parameter \<open>rnd\<close>, which gives for the exact
  result the double that the machine returns: a finite number (zero, when the result is too
  small), or an infinity when it is too large. With \<open>Fin\<close> for \<open>rnd\<close> nothing is rounded.
  A division by zero raises. \<^verbatim>\<open>int(x)\<close> truncates towards zero, and raises on an infinity
  and on NaN. The integers of the shape and of the memory size are converted to floats
  without loss, as they are below \<open>2^53\<close>, and \<open>fraction\<close> is a finite double.
\<close>

definition py_int :: "real \<Rightarrow> int" where
  "py_int x = (if 0 \<le> x then \<lfloor>x\<rfloor> else \<lceil>x\<rceil>)"

fun float_to_int :: "fp \<Rightarrow> error + int" where
  "float_to_int (Fin x) = Inr (py_int x)"
| "float_to_int NaN = Inl ValueError"
| "float_to_int PInf = Inl OverflowError"
| "float_to_int NInf = Inl OverflowError"

fun np_ceil :: "fp \<Rightarrow> fp" where
  "np_ceil (Fin x) = Fin (real_of_int \<lceil>x\<rceil>)"
| "np_ceil v = v"

text \<open>The result of an operation on floats: a finite result is rounded.\<close>

fun rounded :: "(real \<Rightarrow> fp) \<Rightarrow> fp \<Rightarrow> fp" where
  "rounded rnd (Fin x) = rnd x"
| "rounded rnd v = v"

text \<open>The line \<^verbatim>\<open>max_batch_size = total_memory / 8 / n_items * frac\<close>, for \<open>n_items\<close>
  other than zero, and the function.\<close>

definition max_batch_size :: "(real \<Rightarrow> fp) \<Rightarrow> nat \<Rightarrow> real \<Rightarrow> nat option \<Rightarrow> fp" where
  "max_batch_size rnd n_items fraction cuda =
     (let total_memory = (case cuda of Some m \<Rightarrow> real m | None \<Rightarrow> 16000000000)
      in rounded rnd
           (fmul (rounded rnd (fdiv (rnd (total_memory / 8)) (Fin (real n_items))))
                 (Fin fraction)))"

definition get_batch_size ::
  "(real \<Rightarrow> fp) \<Rightarrow> nat \<times> nat \<Rightarrow> real \<Rightarrow> nat option \<Rightarrow> error + int" where
  "get_batch_size rnd shape fraction cuda =
     (case shape of (n_users, n_items) \<Rightarrow>
        if n_items = 0 then Inl ZeroDivisionError
        else if max_batch_size rnd n_items fraction cuda = Fin 0 then Inl ZeroDivisionError
        else case float_to_int
                    (rounded rnd (fdiv (Fin (real n_users))
                                       (max_batch_size rnd n_items fraction cuda))) of
               Inl err \<Rightarrow> Inl err
             | Inr k \<Rightarrow>
                 let n_batches = k + 1
                 in if n_batches = 0 then Inl ZeroDivisionError
                    else float_to_int (np_ceil (rnd (real n_users / real_of_int n_batches))))"

text \<open>The default of \<open>frac\<close>: the double that the literal \<^verbatim>\<open>0.1\<close> stands for.\<close>

definition default_frac :: real where
  "default_frac = 3602879701896397 / 36028797018963968"

section \<open>The low-rank score matrix\<close>

text \<open>
  The labels of an axis are held in a Python list, as the annotation \<^verbatim>\<open>index: list\<close>
  says and as \<^verbatim>\<open>collate_fn\<close> builds them, or in an array (a numpy array or a pandas
  \<^verbatim>\<open>Index\<close>). Both have a length and can be iterated. \<^verbatim>\<open>labels[key]\<close> with a sequence of
  integers for the key selects the labels at these positions of an array; a Python list
  refuses such a key with a \<^verbatim>\<open>TypeError\<close>.
\<close>

datatype 'l labels = PyList "'l list" | PdIndex "'l list"

fun list_of :: "'l labels \<Rightarrow> 'l list" where
  "list_of (PyList xs) = xs"
| "list_of (PdIndex xs) = xs"

record 'l LowRankDataFrame =
  ind_logits :: ndarray
  col_logits :: ndarray
  index :: "'l labels"
  columns :: "'l labels"
  act :: string

text \<open>\<^verbatim>\<open>__post_init__\<close>: the four assertions, and the constructor that runs them.\<close>

definition post_init :: "'l LowRankDataFrame \<Rightarrow> bool" where
  "post_init m \<longleftrightarrow>
     shape1 (ind_logits m) = shape1 (col_logits m)
     \<and> shape0 (ind_logits m) = length (list_of (index m))
     \<and> shape0 (col_logits m) = length (list_of (columns m))
     \<and> act m \<in> set [''exp'', ''sigmoid'']"

definition new_LowRankDataFrame ::
  "ndarray \<Rightarrow> ndarray \<Rightarrow> 'l labels \<Rightarrow> 'l labels \<Rightarrow> string \<Rightarrow> error + 'l LowRankDataFrame" where
  "new_LowRankDataFrame il cl ix cs a =
     (let m = \<lparr>ind_logits = il, col_logits = cl, index = ix, columns = cs, act = a\<rparr>
      in if post_init m then Inr m else Inl AssertionError)"

text \<open>What Python evaluation yields: \<^verbatim>\<open>None\<close>, a number or an array.\<close>

datatype pyval = PyNone | Num fp | Arr ndarray

text \<open>\<^verbatim>\<open>LowRankDataFrame.eval(device=None)\<close>. With an activation that is neither name the
  method falls off its end and returns \<^verbatim>\<open>None\<close>.\<close>

definition sigmoid :: "fp \<Rightarrow> fp" where
  "sigmoid z = fdiv (Fin 1) (fadd (Fin 1) (fexp (fneg z)))"

definition LowRankDataFrame_eval :: "'l LowRankDataFrame \<Rightarrow> error + pyval" where
  "LowRankDataFrame_eval m =
     (case matmul (ind_logits m) (transpose_array (col_logits m)) of
        Inl e \<Rightarrow> Inl e
      | Inr z \<Rightarrow>
          if act m = ''exp'' then Inr (Arr (map_array fexp z))
          else if act m = ''sigmoid'' then Inr (Arr (map_array sigmoid z))
          else Inr PyNone)"

definition LowRankDataFrame_shape :: "'l LowRankDataFrame \<Rightarrow> nat \<times> nat" where
  "LowRankDataFrame_shape m = (length (rows (ind_logits m)), length (rows (col_logits m)))"

text \<open>A key of \<^verbatim>\<open>__getitem__\<close>: one integer (\<^verbatim>\<open>np.isscalar(key)\<close>) or a sequence of integers.\<close>

datatype key = KInt int | KSeq "int list"

definition key_list :: "key \<Rightarrow> int list" where
  "key_list key = (case key of KInt k \<Rightarrow> [k] | KSeq ks \<Rightarrow> ks)"

text \<open>\<^verbatim>\<open>labels[key]\<close> for a sequence of integers \<open>key\<close>.\<close>

fun labels_getitem :: "'l labels \<Rightarrow> int list \<Rightarrow> error + 'l labels" where
  "labels_getitem (PyList xs) key = Inl TypeError"
| "labels_getitem (PdIndex xs) key =
     (case index_rows xs key of Inl e \<Rightarrow> Inl e | Inr ys \<Rightarrow> Inr (PdIndex ys))"

text \<open>\<^verbatim>\<open>LowRankDataFrame.__getitem__\<close>: the arguments of the constructor are evaluated from
  left to right, \<^verbatim>\<open>self.ind_logits[key]\<close> before \<^verbatim>\<open>self.index[key]\<close>.\<close>

definition LowRankDataFrame_getitem :: "'l LowRankDataFrame \<Rightarrow> key \<Rightarrow> error + 'l LowRankDataFrame" where
  "LowRankDataFrame_getitem m key =
     (let ks = key_list key
      in case array_getitem (ind_logits m) ks of
           Inl e \<Rightarrow> Inl e
         | Inr il \<Rightarrow>
             (case labels_getitem (index m) ks of
                Inl e \<Rightarrow> Inl e
              | Inr ix \<Rightarrow> new_LowRankDataFrame il (col_logits m) ix (columns m) (act m)))"

definition LowRankDataFrame_T :: "'l LowRankDataFrame \<Rightarrow> error + 'l LowRankDataFrame" where
  "LowRankDataFrame_T m =
     new_LowRankDataFrame (col_logits m) (ind_logits m) (columns m) (index m) (act m)"

text \<open>\<^verbatim>\<open>LowRankDataFrame.collate_fn\<close>: the row labels of the result are the Python list
  that the loop extends with the labels of every element.\<close>

definition LowRankDataFrame_collate_fn :: "'l LowRankDataFrame list \<Rightarrow> error + 'l LowRankDataFrame" where
  "LowRankDataFrame_collate_fn batch =
     (case batch of
        [] \<Rightarrow> Inl IndexError
      | first # _ \<Rightarrow>
          (case np_vstack (map ind_logits batch) of
             Inl e \<Rightarrow> Inl e
           | Inr il \<Rightarrow>
               new_LowRankDataFrame il (col_logits first)
                 (PyList (concat (map (\<lambda>elm. list_of (index elm)) batch)))
                 (columns first) (act first)))"

text \<open>
  \<^verbatim>\<open>pd.Series(np.arange(n), index=old).reindex(new, fill_value=-1).values\<close>: the position
  of every new label among the old ones, and \<open>-1\<close> for a label that is not there. pandas
  refuses to reindex an axis with duplicate labels, unless the new labels are the old ones.
\<close>

definition position :: "'l list \<Rightarrow> 'l \<Rightarrow> int" where
  "position old l = (if l \<in> set old then int (length (takeWhile (\<lambda>x. x \<noteq> l) old)) else - 1)"

definition series_reindex :: "nat \<Rightarrow> 'l list \<Rightarrow> 'l list \<Rightarrow> error + int list" where
  "series_reindex n old new =
     (if length old \<noteq> n then Inl ValueError
      else if new = old then Inr (map int [0..<n])
      else if \<not> distinct old then Inl ValueError
      else Inr (map (position old) new))"

text \<open>\<^verbatim>\<open>LowRankDataFrame.reindex\<close>: the body for \<^verbatim>\<open>axis != 1\<close>, then the method. The new
  labels are stored in the result as they are given, a list or an array.\<close>

definition reindex_rows ::
  "(real \<Rightarrow> real) \<Rightarrow> 'l LowRankDataFrame \<Rightarrow> 'l labels \<Rightarrow> fp \<Rightarrow> error + 'l LowRankDataFrame" where
  "reindex_rows lg m labels fill_value =
     (case set_last (np_pad (ind_logits m) 1 1 (Fin 0)) (flog lg fill_value) of
        Inl e \<Rightarrow> Inl e
      | Inr il \<Rightarrow>
          (let cl = np_pad (col_logits m) 0 1 (Fin 1)
           in case series_reindex (fst (LowRankDataFrame_shape m))
                     (list_of (index m)) (list_of labels) of
                Inl e \<Rightarrow> Inl e
              | Inr new_ind \<Rightarrow>
                  (case array_getitem il new_ind of
                     Inl e \<Rightarrow> Inl e
                   | Inr il' \<Rightarrow> new_LowRankDataFrame il' cl labels (columns m) (act m))))"

definition LowRankDataFrame_reindex ::
  "(real \<Rightarrow> real) \<Rightarrow> 'l LowRankDataFrame \<Rightarrow> 'l labels \<Rightarrow> int \<Rightarrow> fp
     \<Rightarrow> error + 'l LowRankDataFrame" where
  "LowRankDataFrame_reindex lg m labels axis fill_value =
     (if axis = 1
      then (case LowRankDataFrame_T m of
              Inl e \<Rightarrow> Inl e
            | Inr t \<Rightarrow>
                (case reindex_rows lg t labels fill_value of
                   Inl e \<Rightarrow> Inl e
                 | Inr r \<Rightarrow> LowRankDataFrame_T r))
      else reindex_rows lg m labels fill_value)"

section \<open>Lazy score expressions\<close>

text \<open>
  A child of an expression node is a scalar, a dense two-dimensional array, a scipy sparse
  matrix (modelled by the dense array it stands for) or an expression; an expression is a
  \<^verbatim>\<open>LowRankDataFrame\<close> or a \<^verbatim>\<open>LazyScoreExpression\<close> node with its operator and children.
  The operators are the three that the class's own methods build: \<^verbatim>\<open>operator.add\<close>,
  \<^verbatim>\<open>operator.mul\<close> and the clipping lambda. The attributes \<^verbatim>\<open>index\<close>, \<^verbatim>\<open>columns\<close> and
  \<^verbatim>\<open>shape\<close> that \<^verbatim>\<open>__init__\<close> copies from the first child are read from that child.
  Evaluation is modelled for \<^verbatim>\<open>device=None\<close>.
\<close>

datatype operator = OpAdd | OpMul | OpClip fp fp

datatype 'l operand = Scalar fp | Dense ndarray | Sparse ndarray | Expr "'l expr"
  and 'l expr = LowRank "'l LowRankDataFrame" | Lazy operator "'l operand list"

text \<open>\<^verbatim>\<open>LazyScoreExpression.__init__\<close>: \<^verbatim>\<open>children[0].index\<close> needs a first child, and one
  that has the attribute: an expression.\<close>

definition new_LazyScoreExpression :: "operator \<Rightarrow> 'l operand list \<Rightarrow> error + 'l expr" where
  "new_LazyScoreExpression oper children =
     (case children of
        [] \<Rightarrow> Inl IndexError
      | Expr _ # _ \<Rightarrow> Inr (Lazy oper children)
      | _ # _ \<Rightarrow> Inl AttributeError)"

fun expr_shape :: "'l expr \<Rightarrow> error + nat \<times> nat" where
  "expr_shape (LowRank m) = Inr (LowRankDataFrame_shape m)"
| "expr_shape (Lazy oper []) = Inl IndexError"
| "expr_shape (Lazy oper (Expr e # _)) = expr_shape e"
| "expr_shape (Lazy oper (_ # _)) = Inl AttributeError"

fun operand_shape :: "'l operand \<Rightarrow> error + nat \<times> nat" where
  "operand_shape (Scalar _) = Inl AttributeError"
| "operand_shape (Dense A) = Inr (shape0 A, shape1 A)"
| "operand_shape (Sparse A) = Inr (shape0 A, shape1 A)"
| "operand_shape (Expr e) = expr_shape e"

text \<open>Element-wise arithmetic of numpy on two arrays, with its broadcasting: along each
  axis the lengths are equal, or one of them is 1 and is repeated.\<close>

definition stretch :: "nat \<Rightarrow> 'a list \<Rightarrow> 'a list" where
  "stretch n xs = (if length xs = n then xs else replicate n (hd xs))"

definition broadcastable :: "nat \<Rightarrow> nat \<Rightarrow> bool" where
  "broadcastable a b \<longleftrightarrow> a = b \<or> a = 1 \<or> b = 1"

definition broadcast_dim :: "nat \<Rightarrow> nat \<Rightarrow> nat" where
  "broadcast_dim a b = (if a = 1 then b else a)"

definition array_binop :: "(fp \<Rightarrow> fp \<Rightarrow> fp) \<Rightarrow> ndarray \<Rightarrow> ndarray \<Rightarrow> error + ndarray" where
  "array_binop f A B =
     (if broadcastable (shape0 A) (shape0 B) \<and> broadcastable (ncols A) (ncols B)
      then let r = broadcast_dim (shape0 A) (shape0 B);
               c = broadcast_dim (ncols A) (ncols B)
           in Inr \<lparr>ncols = c,
                   rows = map2 (\<lambda>ra rb. map2 f (stretch c ra) (stretch c rb))
                            (stretch r (rows A)) (stretch r (rows B))\<rparr>
      else Inl ValueError)"

fun py_binop :: "(fp \<Rightarrow> fp \<Rightarrow> fp) \<Rightarrow> pyval \<Rightarrow> pyval \<Rightarrow> error + pyval" where
  "py_binop f (Num a) (Num b) = Inr (Num (f a b))"
| "py_binop f (Num a) (Arr B) = Inr (Arr (map_array (f a) B))"
| "py_binop f (Arr A) (Num b) = Inr (Arr (map_array (\<lambda>x. f x b) A))"
| "py_binop f (Arr A) (Arr B) =
     (case array_binop f A B of Inl e \<Rightarrow> Inl e | Inr C \<Rightarrow> Inr (Arr C))"
| "py_binop f _ _ = Inl TypeError"

text \<open>\<^verbatim>\<open>self.op(*children)\<close>: the two binary operators take two arguments, the clipping
  lambda one, on which it calls \<^verbatim>\<open>clip\<close> (an array has the method; a float and None do not).\<close>

fun apply_operator :: "operator \<Rightarrow> pyval list \<Rightarrow> error + pyval" where
  "apply_operator OpAdd [a, b] = py_binop fadd a b"
| "apply_operator OpMul [a, b] = py_binop fmul a b"
| "apply_operator (OpClip lo hi) [Arr A] =
     Inr (Arr (map_array (\<lambda>x. np_minimum (np_maximum x lo) hi) A))"
| "apply_operator (OpClip lo hi) [_] = Inl AttributeError"
| "apply_operator _ _ = Inl TypeError"

text \<open>\<^verbatim>\<open>_auto_eval(c, None)\<close> and the \<^verbatim>\<open>eval\<close> method of the two classes.\<close>

fun auto_eval :: "'l operand \<Rightarrow> error + pyval"
  and expr_eval :: "'l expr \<Rightarrow> error + pyval" where
  "auto_eval (Expr e) = expr_eval e"
| "auto_eval (Scalar x) = Inr (Num x)"
| "auto_eval (Sparse A) = Inr (Arr A)"
| "auto_eval (Dense A) = Inr (Arr A)"
| "expr_eval (LowRank m) = LowRankDataFrame_eval m"
| "expr_eval (Lazy oper children) =
     (case collect (map auto_eval children) of
        Inl e \<Rightarrow> Inl e
      | Inr vs \<Rightarrow> apply_operator oper vs)"

text \<open>The property \<^verbatim>\<open>T\<close> of the two classes, and what \<^verbatim>\<open>LazyScoreExpression.T\<close> does to a
  child: \<^verbatim>\<open>c if np.isscalar(c) else c.T\<close>.\<close>

fun child_T :: "'l operand \<Rightarrow> error + 'l operand"
  and expr_T :: "'l expr \<Rightarrow> error + 'l expr" where
  "child_T (Scalar x) = Inr (Scalar x)"
| "child_T (Dense A) = Inr (Dense (transpose_array A))"
| "child_T (Sparse A) = Inr (Sparse (transpose_array A))"
| "child_T (Expr e) = (case expr_T e of Inl err \<Rightarrow> Inl err | Inr t \<Rightarrow> Inr (Expr t))"
| "expr_T (LowRank m) =
     (case LowRankDataFrame_T m of Inl err \<Rightarrow> Inl err | Inr t \<Rightarrow> Inr (LowRank t))"
| "expr_T (Lazy oper children) =
     (case collect (map child_T children) of
        Inl err \<Rightarrow> Inl err
      | Inr cs \<Rightarrow> new_LazyScoreExpression oper cs)"

text \<open>
  \<^verbatim>\<open>_auto_getitem(c, key)\<close> as \<^verbatim>\<open>LazyScoreExpression.__getitem__\<close> calls it, with the key
  already a sequence, and \<^verbatim>\<open>__getitem__\<close> of the two classes, which first turn a scalar key
  into a one-element sequence.
\<close>

fun auto_getitem :: "'l operand \<Rightarrow> int list \<Rightarrow> error + 'l operand"
  and seq_getitem :: "'l expr \<Rightarrow> int list \<Rightarrow> error + 'l expr" where
  "auto_getitem (Scalar x) ks = Inr (Scalar x)"
| "auto_getitem (Dense A) ks =
     (case array_getitem A ks of Inl err \<Rightarrow> Inl err | Inr B \<Rightarrow> Inr (Dense B))"
| "auto_getitem (Sparse A) ks =
     (case array_getitem A ks of Inl err \<Rightarrow> Inl err | Inr B \<Rightarrow> Inr (Sparse B))"
| "auto_getitem (Expr e) ks =
     (case seq_getitem e ks of Inl err \<Rightarrow> Inl err | Inr s \<Rightarrow> Inr (Expr s))"
| "seq_getitem (LowRank m) ks =
     (case LowRankDataFrame_getitem m (KSeq ks) of
        Inl err \<Rightarrow> Inl err
      | Inr s \<Rightarrow> Inr (LowRank s))"
| "seq_getitem (Lazy oper children) ks =
     (case collect (map (\<lambda>c. auto_getitem c ks) children) of
        Inl err \<Rightarrow> Inl err
      | Inr cs \<Rightarrow> new_LazyScoreExpression oper cs)"

definition LazyScoreExpression_getitem ::
  "operator \<Rightarrow> 'l operand list \<Rightarrow> key \<Rightarrow> error + 'l expr" where
  "LazyScoreExpression_getitem oper children key =
     (let ks = key_list key
      in case collect (map (\<lambda>c. auto_getitem c ks) children) of
           Inl err \<Rightarrow> Inl err
         | Inr cs \<Rightarrow> new_LazyScoreExpression oper cs)"

fun getitem :: "'l expr \<Rightarrow> key \<Rightarrow> error + 'l expr" where
  "getitem (LowRank m) key =
     (case LowRankDataFrame_getitem m key of Inl err \<Rightarrow> Inl err | Inr s \<Rightarrow> Inr (LowRank s))"
| "getitem (Lazy oper children) key = LazyScoreExpression_getitem oper children key"

text \<open>
  \<^verbatim>\<open>_check_index_columns\<close>, \<^verbatim>\<open>__add__\<close>, \<^verbatim>\<open>__mul__\<close> and \<^verbatim>\<open>clip\<close>. The check is
  \<^verbatim>\<open>np.allclose\<close> on the two shapes, with numpy's default tolerances.
\<close>

definition isclose :: "nat \<Rightarrow> nat \<Rightarrow> bool" where
  "isclose a b \<longleftrightarrow> \<bar>real a - real b\<bar> \<le> 1 / 100000000 + 1 / 100000 * real b"

definition check_index_columns :: "'l expr \<Rightarrow> 'l operand \<Rightarrow> error + unit" where
  "check_index_columns self other =
     (case other of
        Scalar _ \<Rightarrow> Inr ()
      | _ \<Rightarrow>
          (case expr_shape self of
             Inl err \<Rightarrow> Inl err
           | Inr (r, c) \<Rightarrow>
               (case operand_shape other of
                  Inl err \<Rightarrow> Inl err
                | Inr (r', c') \<Rightarrow>
                    if isclose r r' \<and> isclose c c' then Inr () else Inl AssertionError)))"

definition LazyScoreExpression_add :: "'l expr \<Rightarrow> 'l operand \<Rightarrow> error + 'l expr" where
  "LazyScoreExpression_add self other =
     (case check_index_columns self other of
        Inl err \<Rightarrow> Inl err
      | Inr _ \<Rightarrow> new_LazyScoreExpression OpAdd [Expr self, other])"

definition LazyScoreExpression_mul :: "'l expr \<Rightarrow> 'l operand \<Rightarrow> error + 'l expr" where
  "LazyScoreExpression_mul self other =
     (case check_index_columns self other of
        Inl err \<Rightarrow> Inl err
      | Inr _ \<Rightarrow> new_LazyScoreExpression OpMul [Expr self, other])"

definition LazyScoreExpression_clip :: "'l expr \<Rightarrow> fp \<Rightarrow> fp \<Rightarrow> error + 'l expr" where
  "LazyScoreExpression_clip self lo hi = new_LazyScoreExpression (OpClip lo hi) [Expr self]"

text \<open>
  The two methods called on an arbitrary operand, as \<^verbatim>\<open>LazyScoreExpression.__add__(a, b)\<close>:
  their first statement, \<^verbatim>\<open>self._check_index_columns(other)\<close>, needs an expression.
\<close>

definition add :: "'l operand \<Rightarrow> 'l operand \<Rightarrow> error + 'l expr" where
  "add a b = (case a of Expr self \<Rightarrow> LazyScoreExpression_add self b | _ \<Rightarrow> Inl AttributeError)"

definition multiply :: "'l operand \<Rightarrow> 'l operand \<Rightarrow> error + 'l expr" where
  "multiply a b = (case a of Expr self \<Rightarrow> LazyScoreExpression_mul self b | _ \<Rightarrow> Inl AttributeError)"

text \<open>
  The objects that the constructors build from numpy arrays: every array is rectangular, a
  low-rank matrix has passed \<^verbatim>\<open>__post_init__\<close>, and the first child of a node is an
  expression, as \<^verbatim>\<open>__init__\<close> requires.
\<close>

fun valid_operand :: "'l operand \<Rightarrow> bool"
  and valid_expr :: "'l expr \<Rightarrow> bool" where
  "valid_operand (Scalar x) = True"
| "valid_operand (Dense A) = rectangular A"
| "valid_operand (Sparse A) = rectangular A"
| "valid_operand (Expr e) = valid_expr e"
| "valid_expr (LowRank m) =
     (post_init m \<and> rectangular (ind_logits m) \<and> rectangular (col_logits m))"
| "valid_expr (Lazy oper children) =
     ((case children of Expr _ # _ \<Rightarrow> True | _ \<Rightarrow> False) \<and> list_all valid_operand children)"

text \<open>
  \<^verbatim>\<open>_auto_collate(c, D)\<close> and the class method \<^verbatim>\<open>collate_fn\<close> of the two classes. The class
  is that of the object the method is looked up on. \<^verbatim>\<open>zip(*[b.children for b in batch])\<close>
  gives, for every position up to the shortest list of children, the children of all batch
  elements at that position. Stacking is modelled for elements of the kind of the first one,
  which is what \<^verbatim>\<open>__getitem__\<close> produces; any other mix is rejected with \<open>TypeError\<close>.
\<close>

datatype cls = LowRankDataFrame_cls | LazyScoreExpression_cls

fun class_of :: "'l expr \<Rightarrow> cls" where
  "class_of (LowRank _) = LowRankDataFrame_cls"
| "class_of (Lazy _ _) = LazyScoreExpression_cls"

fun children_of :: "'l operand \<Rightarrow> error + 'l operand list" where
  "children_of (Expr (Lazy _ cs)) = Inr cs"
| "children_of _ = Inl AttributeError"

fun lowrank_of :: "'l operand \<Rightarrow> error + 'l LowRankDataFrame" where
  "lowrank_of (Expr (LowRank m)) = Inr m"
| "lowrank_of _ = Inl AttributeError"

fun dense_of :: "'l operand \<Rightarrow> error + ndarray" where
  "dense_of (Dense A) = Inr A"
| "dense_of _ = Inl TypeError"

fun sparse_of :: "'l operand \<Rightarrow> error + ndarray" where
  "sparse_of (Sparse A) = Inr A"
| "sparse_of _ = Inl TypeError"

definition min_length :: "'a list \<Rightarrow> 'a list list \<Rightarrow> nat" where
  "min_length cs css = foldr (\<lambda>xs n. min (length xs) n) css (length cs)"

function auto_collate :: "'l operand \<Rightarrow> 'l operand list \<Rightarrow> error + 'l operand"
  and collate_fn :: "cls \<Rightarrow> 'l operand list \<Rightarrow> error + 'l expr" where
  "auto_collate (Expr e) D =
     (case collate_fn (class_of e) D of Inl err \<Rightarrow> Inl err | Inr r \<Rightarrow> Inr (Expr r))"
| "auto_collate (Scalar x) D = (case D of [] \<Rightarrow> Inl IndexError | d # _ \<Rightarrow> Inr d)"
| "auto_collate (Sparse A) D =
     (case collect (map sparse_of D) of
        Inl err \<Rightarrow> Inl err
      | Inr As \<Rightarrow> (case np_vstack As of Inl err \<Rightarrow> Inl err | Inr B \<Rightarrow> Inr (Sparse B)))"
| "auto_collate (Dense A) D =
     (case collect (map dense_of D) of
        Inl err \<Rightarrow> Inl err
      | Inr As \<Rightarrow> (case np_vstack As of Inl err \<Rightarrow> Inl err | Inr B \<Rightarrow> Inr (Dense B)))"
| "collate_fn LowRankDataFrame_cls batch =
     (case collect (map lowrank_of batch) of
        Inl err \<Rightarrow> Inl err
      | Inr ms \<Rightarrow>
          (case LowRankDataFrame_collate_fn ms of Inl err \<Rightarrow> Inl err | Inr m \<Rightarrow> Inr (LowRank m)))"
| "collate_fn LazyScoreExpression_cls [] = Inl IndexError"
| "collate_fn LazyScoreExpression_cls (first # rest) =
     (case first of
        Expr (Lazy oper cs) \<Rightarrow>
          (case collect (map children_of rest) of
             Inl err \<Rightarrow> Inl err
           | Inr css \<Rightarrow>
               (case collect (map (\<lambda>i. auto_collate (cs ! i) (map (\<lambda>ch. ch ! i) (cs # css)))
                                [0..<min_length cs css]) of
                  Inl err \<Rightarrow> Inl err
                | Inr children \<Rightarrow> new_LazyScoreExpression oper children))
      | _ \<Rightarrow> Inl AttributeError)"
  by pat_completeness auto
termination
proof (relation "measure (\<lambda>x. case x of Inl (c, D) \<Rightarrow> 2 * size (hd D) + 1
                                     | Inr (k, batch) \<Rightarrow> 2 * size (hd batch))")
  show "wf (measure (\<lambda>x. case x of Inl (c, D) \<Rightarrow> 2 * size (hd D) + 1
                                  | Inr (k, batch) \<Rightarrow> 2 * size (hd batch)))"
    by simp
next
  fix e :: "'l expr" and D :: "'l operand list"
  show "(Inr (class_of e, D), Inl (Expr e, D))
        \<in> measure (\<lambda>x. case x of Inl (c, D) \<Rightarrow> 2 * size (hd D) + 1
                                | Inr (k, batch) \<Rightarrow> 2 * size (hd batch))"
    by simp
next
  fix first :: "'l operand" and rest x3 oper cs css i
  assume first: "first = Expr x3" and x3: "x3 = Lazy oper cs"
    and i: "i \<in> set [0..<min_length cs css]"
  have le: "min_length cs ys \<le> length cs" for ys :: "'l operand list list"
    unfolding min_length_def by (induction ys) auto
  from i le [of css] have "i < length cs" by simp
  then have mem: "cs ! i \<in> set cs" by simp
  have "x \<in> set ys \<Longrightarrow> size x < size (Lazy oper ys)" for x :: "'l operand" and ys
    by (induction ys) auto
  then have "size (cs ! i) < size (Lazy oper cs)"
    using mem by blast
  then show "(Inl (cs ! i, map (\<lambda>ch. ch ! i) (cs # css)), Inr (LazyScoreExpression_cls, first # rest))
        \<in> measure (\<lambda>x. case x of Inl (c, D) \<Rightarrow> 2 * size (hd D) + 1
                                | Inr (k, batch) \<Rightarrow> 2 * size (hd batch))"
    using first x3 by simp
qed

section \<open>Aggregation over row batches\<close>

text \<open>
  The \<^verbatim>\<open>DataLoader\<close> of \<^verbatim>\<open>score_op\<close> is torch's, with its defaults: it refuses a batch size
  that is not positive, walks the indices \<open>0 .. len(S) - 1\<close> in order in chunks of
  \<open>batch_size\<close> (the last chunk may be shorter), and builds every batch, when the loop asks
  for it, as \<^verbatim>\<open>collate_fn([S[i] for i in chunk])\<close>.
\<close>

function batch_sampler :: "nat \<Rightarrow> nat list \<Rightarrow> nat list list" where
  "batch_sampler batch_size xs =
     (if batch_size = 0 \<or> xs = [] then []
      else take batch_size xs # batch_sampler batch_size (drop batch_size xs))"
  by pat_completeness auto
termination
  by (relation "measure (\<lambda>(batch_size, xs). length xs)") auto

definition fetch :: "'l expr \<Rightarrow> nat list \<Rightarrow> error + 'l expr" where
  "fetch S chunk =
     (case collect (map (\<lambda>i. getitem S (KInt (int i))) chunk) of
        Inl err \<Rightarrow> Inl err
      | Inr items \<Rightarrow> collate_fn (class_of S) (map Expr items))"

text \<open>
  The reduction names of the docstring. \<^verbatim>\<open>getattr(val, op)()\<close> is \<^verbatim>\<open>ndarray.max\<close> or
  \<^verbatim>\<open>ndarray.min\<close>, which raise on an array without entries and give NaN as soon as an entry
  is NaN; \<^verbatim>\<open>getattr(builtins, op)(out, new)\<close> is Python's \<^verbatim>\<open>max\<close> or \<^verbatim>\<open>min\<close> of two
  arguments, which keeps the first unless the second compares greater (smaller).
\<close>

datatype reduction = ReduceMax | ReduceMin

definition array_reduce :: "reduction \<Rightarrow> ndarray \<Rightarrow> error + fp" where
  "array_reduce r A =
     (case concat (rows A) of
        [] \<Rightarrow> Inl ValueError
      | x # xs \<Rightarrow> Inr (foldl (case r of ReduceMax \<Rightarrow> np_maximum | ReduceMin \<Rightarrow> np_minimum) x xs))"

fun val_reduce :: "reduction \<Rightarrow> pyval \<Rightarrow> error + fp" where
  "val_reduce r (Arr A) = array_reduce r A"
| "val_reduce r _ = Inl AttributeError"

fun builtin :: "reduction \<Rightarrow> fp \<Rightarrow> fp \<Rightarrow> fp" where
  "builtin ReduceMax out new = (if fgt new out then new else out)"
| "builtin ReduceMin out new = (if flt new out then new else out)"

fun score_loop :: "'l expr \<Rightarrow> reduction \<Rightarrow> fp option \<Rightarrow> nat list list \<Rightarrow> error + fp option" where
  "score_loop S r out [] = Inr out"
| "score_loop S r out (chunk # chunks) =
     (case fetch S chunk of
        Inl err \<Rightarrow> Inl err
      | Inr batch \<Rightarrow>
          (case expr_eval batch of
             Inl err \<Rightarrow> Inl err
           | Inr val \<Rightarrow>
               (case val_reduce r val of
                  Inl err \<Rightarrow> Inl err
                | Inr new \<Rightarrow>
                    score_loop S r
                      (Some (case out of None \<Rightarrow> new | Some out' \<Rightarrow> builtin r out' new))
                      chunks)))"

text \<open>\<^verbatim>\<open>score_op\<close> from the point where \<^verbatim>\<open>S.batch_size\<close> is known, and \<^verbatim>\<open>score_op\<close>, with
  the rounding of \<^verbatim>\<open>get_batch_size\<close> and the accelerator for parameters. The result \<open>None\<close>
  is Python's \<^verbatim>\<open>None\<close>, the initial value of \<^verbatim>\<open>out\<close>.\<close>

definition score_op_batched :: "'l expr \<Rightarrow> reduction \<Rightarrow> int \<Rightarrow> error + fp option" where
  "score_op_batched S r batch_size =
     (if batch_size \<le> 0 then Inl ValueError
      else case expr_shape S of
             Inl err \<Rightarrow> Inl err
           | Inr (n, _) \<Rightarrow> score_loop S r None (batch_sampler (nat batch_size) [0..<n]))"

definition score_op ::
  "(real \<Rightarrow> fp) \<Rightarrow> 'l expr \<Rightarrow> reduction \<Rightarrow> nat option \<Rightarrow> error + fp option" where
  "score_op rnd S r cuda =
     (case expr_shape S of
        Inl err \<Rightarrow> Inl err
      | Inr shape \<Rightarrow>
          (case get_batch_size rnd shape default_frac cuda of
             Inl err \<Rightarrow> Inl err
           | Inr batch_size \<Rightarrow> score_op_batched S r batch_size))"

text \<open>
  The other side of the comparison that the specification makes for \<open>score_op\<close>: evaluate
  the whole expression once and reduce the result, \<^verbatim>\<open>getattr(S.eval(), op)()\<close>.
\<close>

definition evaluate_then_reduce :: "'l expr \<Rightarrow> reduction \<Rightarrow> error + fp" where
  "evaluate_then_reduce S r =
     (case expr_eval S of Inl err \<Rightarrow> Inl err | Inr val \<Rightarrow> val_reduce r val)"

section \<open>Example data\<close>

text \<open>A low-rank matrix with seven rows, three columns and hidden rank two.\<close>

definition seven_by_three :: "nat LowRankDataFrame" where
  "seven_by_three =
     \<lparr>ind_logits = \<lparr>ncols = 2, rows = [[Fin 1, Fin 0], [Fin 0, Fin 1], [Fin 1, Fin 1], [Fin 2, Fin 0],
                                        [Fin 0, Fin 2], [Fin 2, Fin 1], [Fin 1, Fin 2]]\<rparr>,
      col_logits = \<lparr>ncols = 2, rows = [[Fin 1, Fin 0], [Fin 0, Fin 1], [Fin 1, Fin 1]]\<rparr>,
      index = PdIndex [10, 11, 12, 13, 14, 15, 16], columns = PdIndex [20, 21, 22], act = ''sigmoid''\<rparr>"

text \<open>A low-rank matrix without rows, with one column and hidden rank one.\<close>

definition no_rows :: "string LowRankDataFrame" where
  "no_rows =
     \<lparr>ind_logits = \<lparr>ncols = 1, rows = []\<rparr>,
      col_logits = \<lparr>ncols = 1, rows = [[Fin 2]]\<rparr>,
      index = PdIndex [], columns = PdIndex [''i0''], act = ''exp''\<rparr>"

text \<open>A low-rank matrix with two rows, one column and hidden rank one, and a dense matrix
  of its shape.\<close>

definition two_by_one :: "string LowRankDataFrame" where
  "two_by_one =
     \<lparr>ind_logits = \<lparr>ncols = 1, rows = [[Fin 1], [Fin 0]]\<rparr>,
      col_logits = \<lparr>ncols = 1, rows = [[Fin 2]]\<rparr>,
      index = PdIndex [''u0'', ''u1''], columns = PdIndex [''i0''], act = ''exp''\<rparr>"

definition dense_two_by_one :: ndarray where
  "dense_two_by_one = \<lparr>ncols = 1, rows = [[Fin 5], [Fin 7]]\<rparr>"

text \<open>The matrix of the specification's scenario, with the row labels \<open>a\<close> and \<open>b\<close>; a
  matrix with the logistic activation; and a matrix with an infinite column factor.\<close>

definition two_by_two :: "string LowRankDataFrame" where
  "two_by_two =
     \<lparr>ind_logits = \<lparr>ncols = 2, rows = [[Fin 1, Fin 0], [Fin 0, Fin 1]]\<rparr>,
      col_logits = \<lparr>ncols = 2, rows = [[Fin 1, Fin 1], [Fin 1, Fin 0]]\<rparr>,
      index = PdIndex [''a'', ''b''], columns = PdIndex [''x'', ''y''], act = ''exp''\<rparr>"

definition one_by_one_sigmoid :: "string LowRankDataFrame" where
  "one_by_one_sigmoid =
     \<lparr>ind_logits = \<lparr>ncols = 1, rows = [[Fin 0]]\<rparr>,
      col_logits = \<lparr>ncols = 1, rows = [[Fin 0]]\<rparr>,
      index = PdIndex [''a''], columns = PdIndex [''x''], act = ''sigmoid''\<rparr>"

definition one_by_one_infinite :: "string LowRankDataFrame" where
  "one_by_one_infinite =
     \<lparr>ind_logits = \<lparr>ncols = 1, rows = [[Fin 1]]\<rparr>,
      col_logits = \<lparr>ncols = 1, rows = [[PInf]]\<rparr>,
      index = PdIndex [''a''], columns = PdIndex [''x''], act = ''exp''\<rparr>"

text \<open>The two-by-one matrix reindexed to the rows \<open>u0\<close> and \<open>u9\<close> with the default fill
  value NaN, and reindexed to \<open>u9\<close> and \<open>u0\<close>.\<close>

definition two_by_one_nan :: "string LowRankDataFrame" where
  "two_by_one_nan =
     \<lparr>ind_logits = \<lparr>ncols = 2, rows = [[Fin 1, Fin 0], [Fin 0, NaN]]\<rparr>,
      col_logits = \<lparr>ncols = 2, rows = [[Fin 2, Fin 1]]\<rparr>,
      index = PdIndex [''u0'', ''u9''], columns = PdIndex [''i0''], act = ''exp''\<rparr>"

definition nan_two_by_one :: "string LowRankDataFrame" where
  "nan_two_by_one =
     \<lparr>ind_logits = \<lparr>ncols = 2, rows = [[Fin 0, NaN], [Fin 1, Fin 0]]\<rparr>,
      col_logits = \<lparr>ncols = 2, rows = [[Fin 2, Fin 1]]\<rparr>,
      index = PdIndex [''u9'', ''u0''], columns = PdIndex [''i0''], act = ''exp''\<rparr>"

section \<open>Properties\<close>

subsection \<open>The batch size\<close>






subsection \<open>Lists, sums and products\<close>

lemma collect_Inr_iff:
  "collect (map f xs) = Inr ys \<longleftrightarrow> list_all2 (\<lambda>x y. f x = Inr y) xs ys"
proof (induction xs arbitrary: ys)
  case Nil
  then show ?case by auto
next
  case (Cons x xs)
  show ?case
  proof (cases "f x")
    case (Inl e)
    then show ?thesis by (auto simp: list_all2_Cons1)
  next
    case (Inr v)
    then show ?thesis
      using Cons.IH by (cases "collect (map f xs)") (auto simp: list_all2_Cons1)
  qed
qed

lemma collect_map_Inr: "collect (map (\<lambda>x. Inr (f x)) xs) = Inr (map f xs)"
  by (induction xs) simp_all

lemma collect_length: "collect (map f xs) = Inr ys \<Longrightarrow> length ys = length xs"
  by (simp add: collect_Inr_iff list_all2_lengthD)

lemma foldl_fadd_Fin: "foldl fadd (Fin a) (map Fin xs) = Fin (a + sum_list xs)"
  by (induction xs arbitrary: a) (simp_all add: add.assoc)

lemma map2_fmul_Fin: "map2 fmul (map Fin p) (map Fin q) = map Fin (map2 (*) p q)"
  by (induction p arbitrary: q) (auto simp: zip_Cons1 split: list.splits) 

lemma dot_Fin: "dot (map Fin p) (map Fin q) = Fin (sum_list (map2 (*) p q))"
  by (simp add: dot_def map2_fmul_Fin foldl_fadd_Fin del: map_map)

lemma sum_list_map2:
  assumes "length p = length q"
  shows "sum_list (map2 (*) p q) = (\<Sum>k<length p. p ! k * q ! k :: real)"
proof -
  have "sum_list (map2 (*) p q) = (\<Sum>k = 0..<length (map2 (*) p q). map2 (*) p q ! k)"
    by (rule sum_list_sum_nth)
  also have "\<dots> = (\<Sum>k = 0..<length p. p ! k * q ! k)"
    using assms by (intro sum.cong) simp_all
  finally show ?thesis by (simp add: atLeast0LessThan)
qed

lemma map_nth_fun: "map (\<lambda>i. f (xs ! i)) [0..<length xs] = map f xs"
  by (rule nth_equalityI) simp_all

lemma transposed_column:
  assumes "rectangular B" and "j < length (rows B)"
  shows "map (\<lambda>b. b ! j) (rows (transpose_array B)) = rows B ! j"
proof -
  have len: "length (rows B ! j) = ncols B"
    using assms by (simp add: rectangular_def list_all_length)
  show ?thesis
    using assms(2) len by (auto simp: transpose_array_def o_def intro!: nth_equalityI)
qed

lemma matmul_transpose:
  assumes "rectangular B" and "ncols A = ncols B"
  shows "matmul A (transpose_array B) =
           Inr \<lparr>ncols = length (rows B), rows = map (\<lambda>r. map (\<lambda>c. dot r c) (rows B)) (rows A)\<rparr>"
proof -
  have "map (\<lambda>j. dot r (map (\<lambda>b. b ! j) (rows (transpose_array B)))) [0..<length (rows B)]
          = map (\<lambda>c. dot r c) (rows B)" for r
  proof -
    have "map (\<lambda>j. dot r (map (\<lambda>b. b ! j) (rows (transpose_array B)))) [0..<length (rows B)]
            = map (\<lambda>j. dot r (rows B ! j)) [0..<length (rows B)]"
      using assms(1) by (simp add: transposed_column)
    then show ?thesis by (simp add: map_nth_fun)
  qed
  moreover have "ncols (transpose_array B) = length (rows B)"
    and "length (rows (transpose_array B)) = ncols B"
    by (simp_all add: transpose_array_def)
  ultimately show ?thesis
    using assms(2) by (simp add: matmul_def)
qed

subsection \<open>Evaluation of a low-rank matrix\<close>

lemma LowRankDataFrame_eval_dot:
  assumes "post_init m" and "rectangular (col_logits m)"
  shows "LowRankDataFrame_eval m =
           Inr (Arr \<lparr>ncols = length (rows (col_logits m)),
                     rows = map (\<lambda>r. map (\<lambda>c. (if act m = ''exp'' then fexp else sigmoid) (dot r c))
                                         (rows (col_logits m)))
                              (rows (ind_logits m))\<rparr>)"
proof -
  have k: "ncols (ind_logits m) = ncols (col_logits m)"
    and a: "act m = ''exp'' \<or> act m = ''sigmoid''"
    using assms(1) by (auto simp: post_init_def shape1_def)
  show ?thesis
    using a by (auto simp: LowRankDataFrame_eval_def matmul_transpose [OF assms(2) k] map_array_def o_def)
qed

text \<open>
  Claim C2. \<open>eval\<close> without a device is the matrix product of the row factors with the
  transposed column factors, with the activation applied to every entry; on finite factors
  the entry \<open>(i, j)\<close> is the activation of \<open>\<Sum>k. P i k * Q j k\<close>, where \<open>exp\<close> is the
  natural exponential and \<open>sigmoid\<close> is \<open>1 / (1 + exp (- z))\<close>.
\<close>

theorem LowRankDataFrame_eval_product:
  assumes "post_init m"
    and "ind_logits m = \<lparr>ncols = K, rows = map (map Fin) P\<rparr>"
    and "col_logits m = \<lparr>ncols = K, rows = map (map Fin) Q\<rparr>"
    and "\<forall>p \<in> set P. length p = K" and "\<forall>q \<in> set Q. length q = K"
  shows "LowRankDataFrame_eval m =
           Inr (Arr \<lparr>ncols = length Q,
                     rows = map (\<lambda>p. map (\<lambda>q. Fin ((if act m = ''exp'' then exp
                                                      else (\<lambda>z. 1 / (1 + exp (- z))))
                                                     (\<Sum>k<K. p ! k * q ! k))) Q) P\<rparr>)"
proof -
  have rect: "rectangular (col_logits m)"
    using assms(3,5) by (simp add: rectangular_def list_all_iff)
  have d: "dot (map Fin p) (map Fin q) = Fin (\<Sum>k<K. p ! k * q ! k)"
    if "p \<in> set P" and "q \<in> set Q" for p q
    using that assms(4,5) sum_list_map2 [of p q] by (simp add: dot_Fin)
  have s: "sigmoid (Fin z) = Fin (1 / (1 + exp (- z)))" for z
  proof -
    have "1 + exp (- z) \<noteq> 0"
      using exp_gt_zero [of "- z"] by linarith
    then show ?thesis by (simp add: sigmoid_def)
  qed
  show ?thesis
    unfolding LowRankDataFrame_eval_dot [OF assms(1) rect]
    using d s by (simp add: assms(2,3) o_def)
qed

theorem LowRankDataFrame_eval_product_witness:
  "LowRankDataFrame_eval
     \<lparr>ind_logits = \<lparr>ncols = 2, rows = [[Fin 1, Fin 0], [Fin 0, Fin 1]]\<rparr>,
      col_logits = \<lparr>ncols = 2, rows = [[Fin 1, Fin 1], [Fin 1, Fin 0]]\<rparr>,
      index = PdIndex [''u0'', ''u1''], columns = PdIndex [''i0'', ''i1''], act = ''exp''\<rparr>
   = Inr (Arr \<lparr>ncols = 2, rows = [[Fin (exp 1), Fin (exp 1)], [Fin (exp 1), Fin 1]]\<rparr>)"
  using LowRankDataFrame_eval_product
    [of "\<lparr>ind_logits = \<lparr>ncols = 2, rows = [[Fin 1, Fin 0], [Fin 0, Fin 1]]\<rparr>,
          col_logits = \<lparr>ncols = 2, rows = [[Fin 1, Fin 1], [Fin 1, Fin 0]]\<rparr>,
          index = PdIndex [''u0'', ''u1''], columns = PdIndex [''i0'', ''i1''], act = ''exp''\<rparr>"
        2 "[[1, 0], [0, 1]]" "[[1, 1], [1, 0]]"]
  by (simp add: post_init_def shape0_def shape1_def lessThan_Suc numeral_2_eq_2)

subsection \<open>Transposition\<close>

lemma transpose_array_involutive:
  assumes "rectangular A"
  shows "transpose_array (transpose_array A) = A"
proof -
  have len: "length (rows A ! i) = ncols A" if "i < length (rows A)" for i
    using assms that by (simp add: rectangular_def list_all_length)
  have "map (\<lambda>i. map (\<lambda>r. r ! i) (map (\<lambda>j. map (\<lambda>r. r ! j) (rows A)) [0..<ncols A]))
          [0..<length (rows A)] = rows A"
    using len by (auto simp: o_def intro!: nth_equalityI)
  then show ?thesis
    by (simp add: transpose_array_def)
qed

lemma rectangular_transpose_array: "rectangular (transpose_array A)"
  by (simp add: rectangular_def transpose_array_def list_all_iff)

lemma new_LowRankDataFrame_post_init:
  "new_LowRankDataFrame il cl ix cs a = Inr m \<Longrightarrow> post_init m"
  by (auto simp: new_LowRankDataFrame_def Let_def split: if_splits)

lemma new_LowRankDataFrame_fields:
  "new_LowRankDataFrame il cl ix cs a = Inr m \<Longrightarrow>
     m = \<lparr>ind_logits = il, col_logits = cl, index = ix, columns = cs, act = a\<rparr>"
  by (auto simp: new_LowRankDataFrame_def Let_def split: if_splits)

lemma LowRankDataFrame_T_valid:
  assumes "post_init m"
  shows "LowRankDataFrame_T m =
           Inr \<lparr>ind_logits = col_logits m, col_logits = ind_logits m,
                index = columns m, columns = index m, act = act m\<rparr>"
  using assms by (simp add: LowRankDataFrame_T_def new_LowRankDataFrame_def post_init_def)

lemma LowRankDataFrame_T_T:
  assumes "post_init m"
  shows "\<exists>t. LowRankDataFrame_T m = Inr t \<and> post_init t \<and> LowRankDataFrame_T t = Inr m"
proof -
  let ?t = "\<lparr>ind_logits = col_logits m, col_logits = ind_logits m,
             index = columns m, columns = index m, act = act m\<rparr>"
  have t: "LowRankDataFrame_T m = Inr ?t"
    using assms by (rule LowRankDataFrame_T_valid)
  have pt: "post_init ?t"
    using assms by (simp add: post_init_def)
  have "LowRankDataFrame_T ?t = Inr m"
    using LowRankDataFrame_T_valid [OF pt] by simp
  with t pt show ?thesis by blast
qed

lemma new_LazyScoreExpression_Expr:
  "new_LazyScoreExpression oper (Expr e # cs) = Inr (Lazy oper (Expr e # cs))"
  by (simp add: new_LazyScoreExpression_def)

lemma T_involutive:
  fixes c :: "'l operand" and e :: "'l expr"
  shows "valid_operand c \<Longrightarrow> \<exists>t. child_T c = Inr t \<and> valid_operand t \<and> child_T t = Inr c"
    and "valid_expr e \<Longrightarrow> \<exists>t. expr_T e = Inr t \<and> valid_expr t \<and> expr_T t = Inr e"
proof (induction c and e rule: child_T_expr_T.induct)
  case (1 x)
  then show ?case by simp
next
  case (2 A)
  then show ?case by (simp add: transpose_array_involutive rectangular_transpose_array)
next
  case (3 A)
  then show ?case by (simp add: transpose_array_involutive rectangular_transpose_array)
next
  case (4 e)
  then show ?case by auto
next
  case (5 m)
  then have p: "post_init m" by simp
  from 5 have r: "rectangular (ind_logits m)" "rectangular (col_logits m)" by simp_all
  from LowRankDataFrame_T_T [OF p] obtain t
    where t: "LowRankDataFrame_T m = Inr t" "post_init t" "LowRankDataFrame_T t = Inr m"
    by blast
  from t(1) p have "ind_logits t = col_logits m" "col_logits t = ind_logits m"
    by (auto simp: LowRankDataFrame_T_valid)
  with t r show ?case by simp
next
  case (6 oper children)
  from 6(2) obtain e0 rest where ch: "children = Expr e0 # rest"
    by (auto split: list.splits operand.splits)
  from 6(2) have all: "\<forall>c \<in> set children. valid_operand c"
    by (simp add: list_all_iff)
  have "\<forall>c \<in> set children. \<exists>t. child_T c = Inr t \<and> valid_operand t \<and> child_T t = Inr c"
    using 6(1) all by blast
  then obtain g where g: "\<forall>c \<in> set children. child_T c = Inr (g c) \<and> valid_operand (g c) \<and> child_T (g c) = Inr c"
    by metis
  then have fwd: "collect (map child_T children) = Inr (map g children)"
    by (simp add: collect_Inr_iff list_all2_conv_all_nth)
  have bwd: "collect (map child_T (map g children)) = Inr children"
    using g by (simp add: collect_Inr_iff list_all2_conv_all_nth)
  from g ch have "child_T (Expr e0) = Inr (g (Expr e0))"
    by simp
  then have "\<exists>t0. g (Expr e0) = Expr t0"
    by (cases "expr_T e0") (auto intro: sym)
  then obtain t0 where t0: "g (Expr e0) = Expr t0" ..
  have hd: "map g children = Expr t0 # map g rest"
    using ch t0 by simp
  have "expr_T (Lazy oper children) = Inr (Lazy oper (map g children))"
    using fwd hd by (simp add: new_LazyScoreExpression_Expr)
  moreover have "valid_expr (Lazy oper (map g children))"
    using g hd by (simp add: list_all_iff del: list.map) (simp add: ch)
  moreover have "expr_T (Lazy oper (map g children)) = Inr (Lazy oper children)"
    using bwd ch by (simp add: new_LazyScoreExpression_Expr del: list.map)
  ultimately show ?case by blast
qed

text \<open>
  Claim C6. The transpose of a low-rank matrix swaps the two factor matrices and the two
  label sequences and keeps the activation, and transposing the result gives the matrix
  back. For an expression (over dense, sparse, scalar and low-rank operands) transposing
  twice gives the expression back, child by child, and with it the same evaluated values.
\<close>

theorem transpose_twice:
  fixes m :: "'l LowRankDataFrame" and e :: "'l expr"
  shows "(post_init m \<longrightarrow>
            (\<exists>t. LowRankDataFrame_T m = Inr t
                 \<and> ind_logits t = col_logits m \<and> col_logits t = ind_logits m
                 \<and> index t = columns m \<and> columns t = index m \<and> act t = act m
                 \<and> LowRankDataFrame_T t = Inr m))
         \<and> (valid_expr e \<longrightarrow>
              (\<exists>t u. expr_T e = Inr t \<and> expr_T t = Inr u \<and> u = e \<and> expr_eval u = expr_eval e))"
proof (intro conjI impI)
  assume p: "post_init m"
  from LowRankDataFrame_T_T [OF p] obtain t
    where t: "LowRankDataFrame_T m = Inr t" "LowRankDataFrame_T t = Inr m"
    by blast
  from t(1) have "t = \<lparr>ind_logits = col_logits m, col_logits = ind_logits m,
                        index = columns m, columns = index m, act = act m\<rparr>"
    using LowRankDataFrame_T_valid [OF p] by simp
  with t show "\<exists>t. LowRankDataFrame_T m = Inr t
                 \<and> ind_logits t = col_logits m \<and> col_logits t = ind_logits m
                 \<and> index t = columns m \<and> columns t = index m \<and> act t = act m
                 \<and> LowRankDataFrame_T t = Inr m"
    by simp
next
  assume "valid_expr e"
  from T_involutive(2) [OF this]
  show "\<exists>t u. expr_T e = Inr t \<and> expr_T t = Inr u \<and> u = e \<and> expr_eval u = expr_eval e"
    by blast
qed

theorem transpose_twice_witness:
  "(\<exists>t. LowRankDataFrame_T
           \<lparr>ind_logits = \<lparr>ncols = 1, rows = [[Fin 1], [Fin 0]]\<rparr>,
            col_logits = \<lparr>ncols = 1, rows = [[Fin 2]]\<rparr>,
            index = PdIndex [''u0'', ''u1''], columns = PdIndex [''i0''], act = ''exp''\<rparr> = Inr t
        \<and> index t = PdIndex [''i0''] \<and> columns t = PdIndex [''u0'', ''u1'']
        \<and> ind_logits t = \<lparr>ncols = 1, rows = [[Fin 2]]\<rparr>)
   \<and> (\<exists>t. expr_T (Lazy OpAdd
                [Expr (LowRank \<lparr>ind_logits = \<lparr>ncols = 1, rows = [[Fin 1], [Fin 0]]\<rparr>,
                                col_logits = \<lparr>ncols = 1, rows = [[Fin 2]]\<rparr>,
                                index = PdIndex [''u0'', ''u1''], columns = PdIndex [''i0''], act = ''exp''\<rparr>),
                 Dense \<lparr>ncols = 1, rows = [[Fin 5], [Fin 7]]\<rparr>]) = Inr t
          \<and> expr_T t = Inr (Lazy OpAdd
                [Expr (LowRank \<lparr>ind_logits = \<lparr>ncols = 1, rows = [[Fin 1], [Fin 0]]\<rparr>,
                                col_logits = \<lparr>ncols = 1, rows = [[Fin 2]]\<rparr>,
                                index = PdIndex [''u0'', ''u1''], columns = PdIndex [''i0''], act = ''exp''\<rparr>),
                 Dense \<lparr>ncols = 1, rows = [[Fin 5], [Fin 7]]\<rparr>]))"
  using transpose_twice
    [of "\<lparr>ind_logits = \<lparr>ncols = 1, rows = [[Fin 1], [Fin 0]]\<rparr>,
          col_logits = \<lparr>ncols = 1, rows = [[Fin 2]]\<rparr>,
          index = PdIndex [''u0'', ''u1''], columns = PdIndex [''i0''], act = ''exp''\<rparr>"
        "Lazy OpAdd
           [Expr (LowRank \<lparr>ind_logits = \<lparr>ncols = 1, rows = [[Fin 1], [Fin 0]]\<rparr>,
                           col_logits = \<lparr>ncols = 1, rows = [[Fin 2]]\<rparr>,
                           index = PdIndex [''u0'', ''u1''], columns = PdIndex [''i0''], act = ''exp''\<rparr>),
            Dense \<lparr>ncols = 1, rows = [[Fin 5], [Fin 7]]\<rparr>]"]
  by (auto simp: post_init_def shape0_def shape1_def rectangular_def)

subsection \<open>Row slices\<close>

lemma index_rows_length: "index_rows xs ks = Inr ys \<Longrightarrow> length ys = length ks"
  by (auto simp: index_rows_def dest: collect_length)

lemma LowRankDataFrame_getitem_shape:
  assumes "LowRankDataFrame_getitem m key = Inr s"
  shows "LowRankDataFrame_shape s = (length (key_list key), snd (LowRankDataFrame_shape m))"
  using assms
  by (auto simp: LowRankDataFrame_getitem_def Let_def array_getitem_def LowRankDataFrame_shape_def
      split: sum.splits dest!: new_LowRankDataFrame_fields index_rows_length)

lemma getitem_seq: "getitem e key = seq_getitem e (key_list key)"
  by (cases e) (simp_all add: LazyScoreExpression_getitem_def LowRankDataFrame_getitem_def key_list_def)

lemma new_LazyScoreExpression_Inr:
  "new_LazyScoreExpression oper cs = Inr e \<Longrightarrow> e = Lazy oper cs \<and> (\<exists>e0 rest. cs = Expr e0 # rest)"
  by (auto simp: new_LazyScoreExpression_def split: list.splits operand.splits)

lemma seq_getitem_shape:
  fixes c :: "'l operand" and e :: "'l expr"
  shows "auto_getitem c ks = Inr (Expr e') \<Longrightarrow>
           \<exists>e0 r n. c = Expr e0 \<and> expr_shape e0 = Inr (r, n) \<and> expr_shape e' = Inr (length ks, n)"
    and "seq_getitem e ks = Inr s \<Longrightarrow>
           \<exists>r n. expr_shape e = Inr (r, n) \<and> expr_shape s = Inr (length ks, n)"
proof (induction c ks and e ks arbitrary: e' and s rule: auto_getitem_seq_getitem.induct)
  case (1 x ks)
  then show ?case by simp
next
  case (2 A ks)
  then show ?case by (simp split: sum.splits)
next
  case (3 A ks)
  then show ?case by (simp split: sum.splits)
next
  case (4 e ks)
  then show ?case by (auto split: sum.splits)
next
  case (5 m ks)
  then obtain s' where s': "LowRankDataFrame_getitem m (KSeq ks) = Inr s'" "s = LowRank s'"
    by (auto split: sum.splits)
  from LowRankDataFrame_getitem_shape [OF s'(1)] s'(2) show ?case
    by (simp add: key_list_def LowRankDataFrame_shape_def)
next
  case (6 oper children ks)
  from 6(2) obtain cs where cs: "collect (map (\<lambda>c. auto_getitem c ks) children) = Inr cs"
    and new: "new_LazyScoreExpression oper cs = Inr s"
    by (auto split: sum.splits)
  from new_LazyScoreExpression_Inr [OF new] obtain e0' rest'
    where s: "s = Lazy oper cs" and cs': "cs = Expr e0' # rest'"
    by blast
  from cs cs' obtain c0 rest where ch: "children = c0 # rest"
    and c0: "auto_getitem c0 ks = Inr (Expr e0')"
    by (auto simp: collect_Inr_iff list_all2_Cons2)
  from 6(1) [of c0 e0'] ch c0 obtain e0 r n
    where "c0 = Expr e0" "expr_shape e0 = Inr (r, n)" "expr_shape e0' = Inr (length ks, n)"
    by auto
  with s cs' ch show ?case by simp
qed

text \<open>
  Claim C10. For an expression or a low-rank matrix, indexing with the single row index \<open>k\<close>
  is indexing with the one-element sequence \<open>[k]\<close>; when it returns, the result has the
  shape \<open>(1, cols)\<close>.
\<close>

theorem getitem_scalar_key:
  fixes e :: "'l expr" and m :: "'l LowRankDataFrame"
  shows "getitem e (KInt k) = getitem e (KSeq [k])
         \<and> LowRankDataFrame_getitem m (KInt k) = LowRankDataFrame_getitem m (KSeq [k])
         \<and> (\<forall>s. getitem e (KInt k) = Inr s \<longrightarrow>
                (\<exists>r n. expr_shape e = Inr (r, n) \<and> expr_shape s = Inr (1, n)))"
proof (intro conjI allI impI)
  show "getitem e (KInt k) = getitem e (KSeq [k])"
    by (simp add: getitem_seq key_list_def)
  show "LowRankDataFrame_getitem m (KInt k) = LowRankDataFrame_getitem m (KSeq [k])"
    by (simp add: LowRankDataFrame_getitem_def key_list_def)
next
  fix s
  assume "getitem e (KInt k) = Inr s"
  then have "seq_getitem e [k] = Inr s"
    by (simp add: getitem_seq key_list_def)
  from seq_getitem_shape(2) [OF this]
  show "\<exists>r n. expr_shape e = Inr (r, n) \<and> expr_shape s = Inr (1, n)"
    by simp
qed

theorem getitem_scalar_key_witness:
  "getitem (Lazy OpAdd
              [Expr (LowRank \<lparr>ind_logits = \<lparr>ncols = 1, rows = [[Fin 1], [Fin 0]]\<rparr>,
                              col_logits = \<lparr>ncols = 1, rows = [[Fin 2]]\<rparr>,
                              index = PdIndex [''u0'', ''u1''], columns = PdIndex [''i0''], act = ''exp''\<rparr>),
               Dense \<lparr>ncols = 1, rows = [[Fin 5], [Fin 7]]\<rparr>]) (KInt 1)
     = Inr (Lazy OpAdd
              [Expr (LowRank \<lparr>ind_logits = \<lparr>ncols = 1, rows = [[Fin 0]]\<rparr>,
                              col_logits = \<lparr>ncols = 1, rows = [[Fin 2]]\<rparr>,
                              index = PdIndex [''u1''], columns = PdIndex [''i0''], act = ''exp''\<rparr>),
               Dense \<lparr>ncols = 1, rows = [[Fin 7]]\<rparr>])
   \<and> expr_shape (Lazy OpAdd
              [Expr (LowRank \<lparr>ind_logits = \<lparr>ncols = 1, rows = [[Fin 0]]\<rparr>,
                              col_logits = \<lparr>ncols = 1, rows = [[Fin 2]]\<rparr>,
                              index = PdIndex [''u1''], columns = PdIndex [''i0''], act = ''exp''\<rparr>),
               Dense \<lparr>ncols = 1, rows = [[Fin 7]]\<rparr>]) = Inr (1, 1)"
  using getitem_scalar_key
    [of "Lazy OpAdd
           [Expr (LowRank \<lparr>ind_logits = \<lparr>ncols = 1, rows = [[Fin 1], [Fin 0]]\<rparr>,
                           col_logits = \<lparr>ncols = 1, rows = [[Fin 2]]\<rparr>,
                           index = PdIndex [''u0'', ''u1''], columns = PdIndex [''i0''], act = ''exp''\<rparr>),
            Dense \<lparr>ncols = 1, rows = [[Fin 5], [Fin 7]]\<rparr>]" 1
        "\<lparr>ind_logits = \<lparr>ncols = 1, rows = [[Fin 1], [Fin 0]]\<rparr>,
          col_logits = \<lparr>ncols = 1, rows = [[Fin 2]]\<rparr>,
          index = PdIndex [''u0'', ''u1''], columns = PdIndex [''i0''], act = ''exp''\<rparr>"]
  by (simp add: LazyScoreExpression_getitem_def key_list_def array_getitem_def index_rows_def
      LowRankDataFrame_getitem_def new_LowRankDataFrame_def post_init_def shape0_def shape1_def
      new_LazyScoreExpression_def LowRankDataFrame_shape_def)

subsection \<open>The construction invariants\<close>

lemma index_rows_in_range:
  assumes "\<forall>k \<in> set ks. - int (length xs) \<le> k \<and> k < int (length xs)"
  shows "index_rows xs ks =
           Inr (map (\<lambda>k. xs ! nat (if k < 0 then k + int (length xs) else k)) ks)"
proof -
  have "map (\<lambda>k. let n = int (length xs)
                  in if - n \<le> k \<and> k < n then Inr (xs ! nat (if k < 0 then k + n else k))
                     else Inl IndexError) ks
        = map (\<lambda>k. Inr (xs ! nat (if k < 0 then k + int (length xs) else k))) ks"
    using assms by (intro map_cong) (simp_all add: Let_def)
  then show ?thesis
    unfolding index_rows_def by (simp only: collect_map_Inr)
qed

lemma LowRankDataFrame_getitem_valid:
  assumes "post_init m" and ix: "index m = PdIndex ix"
    and range: "\<forall>k \<in> set (key_list key). - int (shape0 (ind_logits m)) \<le> k \<and> k < int (shape0 (ind_logits m))"
  shows "\<exists>s. LowRankDataFrame_getitem m key = Inr s \<and> post_init s"
proof -
  have len: "length ix = length (rows (ind_logits m))"
    using assms(1) ix by (simp add: post_init_def shape0_def)
  have a: "\<forall>k \<in> set (key_list key). - int (length (rows (ind_logits m))) \<le> k
                                     \<and> k < int (length (rows (ind_logits m)))"
    using range by (simp add: shape0_def)
  then have b: "\<forall>k \<in> set (key_list key). - int (length ix) \<le> k \<and> k < int (length ix)"
    by (simp add: len)
  show ?thesis
    using assms(1)
    by (simp add: LowRankDataFrame_getitem_def Let_def array_getitem_def ix
        index_rows_in_range [OF a] index_rows_in_range [OF b]
        new_LowRankDataFrame_def post_init_def shape0_def shape1_def)
qed

lemma np_vstack_same_ncols:
  assumes "D \<noteq> []" and "\<forall>B \<in> set D. ncols B = ncols (hd D)"
  shows "np_vstack D = Inr \<lparr>ncols = ncols (hd D), rows = concat (map rows D)\<rparr>"
  using assms by (cases D) (auto simp: np_vstack_def list_all_iff)

lemma length_concat_rows_index:
  assumes "\<forall>b \<in> set batch. post_init b"
  shows "length (concat (map rows (map ind_logits batch))) = length (concat (map (\<lambda>elm. list_of (index elm)) batch))"
  using assms by (induction batch) (simp_all add: post_init_def shape0_def)

lemma LowRankDataFrame_collate_fn_valid:
  assumes "batch \<noteq> []" and "\<forall>b \<in> set batch. post_init b"
    and "\<forall>b \<in> set batch. shape1 (ind_logits b) = shape1 (ind_logits (hd batch))"
  shows "\<exists>c. LowRankDataFrame_collate_fn batch = Inr c \<and> post_init c"
proof -
  obtain first rest where b: "batch = first # rest"
    using assms(1) by (cases batch) auto
  have v: "np_vstack (map ind_logits batch) =
             Inr \<lparr>ncols = ncols (ind_logits first), rows = concat (map rows (map ind_logits batch))\<rparr>"
    using np_vstack_same_ncols [of "map ind_logits batch"] assms(3) b
    by (simp add: shape1_def)
  have p: "post_init first"
    using assms(2) b by simp
  show ?thesis
    using p length_concat_rows_index [OF assms(2)] unfolding LowRankDataFrame_collate_fn_def v
    by (simp add: b new_LowRankDataFrame_def post_init_def shape0_def shape1_def)
qed

lemma takeWhile_length_less: "l \<in> set old \<Longrightarrow> length (takeWhile (\<lambda>x. x \<noteq> l) old) < length old"
  by (induction old) auto

lemma position_range: "- 1 \<le> position old l \<and> position old l < int (length old)"
  using takeWhile_length_less [of l old] by (simp add: position_def)

lemma position_present:
  assumes "l \<in> set old"
  shows "0 \<le> position old l" and "nat (position old l) < length old"
    and "old ! nat (position old l) = l"
proof -
  show "0 \<le> position old l" "nat (position old l) < length old"
    using assms takeWhile_length_less [of l old] by (simp_all add: position_def)
  show "old ! nat (position old l) = l"
    using assms nth_length_takeWhile [of "\<lambda>x. x \<noteq> l" old] takeWhile_length_less [of l old]
    by (simp add: position_def)
qed

lemma position_absent: "l \<notin> set old \<Longrightarrow> position old l = - 1"
  by (simp add: position_def)

lemma position_nth:
  assumes "distinct old" and "i < length old"
  shows "position old (old ! i) = int i"
proof -
  have mem: "old ! i \<in> set old"
    using assms(2) by simp
  from position_present(2,3) [OF mem] assms
  have "nat (position old (old ! i)) = i"
    by (simp add: nth_eq_iff_index_eq)
  with position_present(1) [OF mem] show ?thesis by simp
qed

lemma series_reindex_distinct:
  assumes "distinct old" and "length old = n"
  shows "series_reindex n old new = Inr (map (position old) new)"
proof -
  have "map int [0..<n] = map (position old) old"
    using assms by (auto simp: position_nth intro!: nth_equalityI)
  then show ?thesis
    using assms by (simp add: series_reindex_def)
qed

lemma set_last_pad:
  "set_last (np_pad A 1 1 c) v =
     Inr \<lparr>ncols = ncols A + 1,
          rows = map (\<lambda>r. r @ [c]) (rows A) @ [replicate (ncols A) c @ [v]]\<rparr>"
proof -
  have "(replicate (Suc n) c)[n := v] = replicate n c @ [v]" for n
    by (induction n) simp_all
  then have "(replicate (Suc (ncols A)) c)[ncols A := v] = replicate (ncols A) c @ [v]" .
  moreover have "(map (\<lambda>r. r @ [c]) (rows A) @ [y])[length (rows A) := z]
                   = map (\<lambda>r. r @ [c]) (rows A) @ [z]" for y z
    using list_update_length [of "map (\<lambda>r. r @ [c]) (rows A)" y "[]" z] by simp
  ultimately show ?thesis
    by (simp add: set_last_def np_pad_def)
qed

lemma reindex_rows_formula:
  assumes "post_init m" and "distinct (list_of (index m))"
  shows "reindex_rows lg m labels v =
           Inr \<lparr>ind_logits =
                  \<lparr>ncols = ncols (ind_logits m) + 1,
                   rows = map (\<lambda>l. if l \<in> set (list_of (index m))
                                    then rows (ind_logits m) ! nat (position (list_of (index m)) l) @ [Fin 0]
                                    else replicate (ncols (ind_logits m)) (Fin 0) @ [flog lg v]) (list_of labels)\<rparr>,
                col_logits = np_pad (col_logits m) 0 1 (Fin 1),
                index = labels, columns = columns m, act = act m\<rparr>"
proof -
  let ?A = "rows (ind_logits m)"
  let ?padded = "map (\<lambda>r. r @ [Fin 0]) ?A @ [replicate (ncols (ind_logits m)) (Fin 0) @ [flog lg v]]"
  let ?new_ind = "map (position (list_of (index m))) (list_of labels)"
  have len: "length (list_of (index m)) = length ?A"
    using assms(1) by (simp add: post_init_def shape0_def)
  have sr: "series_reindex (fst (LowRankDataFrame_shape m)) (list_of (index m)) (list_of labels)
              = Inr ?new_ind"
    using assms(2) len by (simp add: series_reindex_distinct LowRankDataFrame_shape_def)
  have range: "\<forall>k \<in> set ?new_ind. - int (length ?padded) \<le> k \<and> k < int (length ?padded)"
  proof
    fix k
    assume "k \<in> set ?new_ind"
    then obtain l where "k = position (list_of (index m)) l"
      by auto
    with position_range [of "list_of (index m)" l] len
    show "- int (length ?padded) \<le> k \<and> k < int (length ?padded)"
      by simp
  qed
  have sel: "?padded ! nat (if position (list_of (index m)) l < 0
                            then position (list_of (index m)) l + int (length ?padded)
                            else position (list_of (index m)) l)
             = (if l \<in> set (list_of (index m))
                then ?A ! nat (position (list_of (index m)) l) @ [Fin 0]
                else replicate (ncols (ind_logits m)) (Fin 0) @ [flog lg v])" for l
  proof (cases "l \<in> set (list_of (index m))")
    case True
    from position_present(1,2) [OF True] len show ?thesis
      using True by (simp add: nth_append)
  next
    case False
    then show ?thesis
      by (simp add: position_absent nth_append)
  qed
  have get: "array_getitem \<lparr>ncols = ncols (ind_logits m) + 1, rows = ?padded\<rparr> ?new_ind
               = Inr \<lparr>ncols = ncols (ind_logits m) + 1,
                      rows = map (\<lambda>l. if l \<in> set (list_of (index m))
                                       then ?A ! nat (position (list_of (index m)) l) @ [Fin 0]
                                       else replicate (ncols (ind_logits m)) (Fin 0) @ [flog lg v]) (list_of labels)\<rparr>"
    unfolding array_getitem_def using index_rows_in_range [OF range] sel
    by (simp add: o_def)
  have post: "post_init \<lparr>ind_logits =
                  \<lparr>ncols = ncols (ind_logits m) + 1,
                   rows = map (\<lambda>l. if l \<in> set (list_of (index m))
                                    then ?A ! nat (position (list_of (index m)) l) @ [Fin 0]
                                    else replicate (ncols (ind_logits m)) (Fin 0) @ [flog lg v]) (list_of labels)\<rparr>,
                col_logits = np_pad (col_logits m) 0 1 (Fin 1),
                index = labels, columns = columns m, act = act m\<rparr>"
    using assms(1) by (simp add: post_init_def shape0_def shape1_def np_pad_def)
  show ?thesis
    unfolding reindex_rows_def set_last_pad sr
    using get post by (simp add: new_LowRankDataFrame_def Let_def)
qed

lemma LowRankDataFrame_reindex_valid:
  assumes "post_init m" and "distinct (list_of (if axis = 1 then columns m else index m))"
  shows "\<exists>r. LowRankDataFrame_reindex lg m labels axis v = Inr r \<and> post_init r"
proof (cases "axis = 1")
  case False
  with assms(2) have d: "distinct (list_of (index m))" by simp
  from reindex_rows_formula [OF assms(1) d, where lg = lg and labels = labels and v = v] obtain r
    where r: "reindex_rows lg m labels v = Inr r" by blast
  then have "post_init r"
    by (auto simp: reindex_rows_def Let_def split: sum.splits dest: new_LowRankDataFrame_post_init)
  with r False show ?thesis
    by (simp add: LowRankDataFrame_reindex_def)
next
  case True
  from LowRankDataFrame_T_T [OF assms(1)] obtain t
    where t: "LowRankDataFrame_T m = Inr t" "post_init t" by blast
  from t(1) have "index t = columns m"
    using LowRankDataFrame_T_valid [OF assms(1)] by auto
  with assms(2) True have d: "distinct (list_of (index t))" by simp
  from reindex_rows_formula [OF t(2) d, where lg = lg and labels = labels and v = v] obtain r
    where r: "reindex_rows lg t labels v = Inr r" by blast
  then have "post_init r"
    by (auto simp: reindex_rows_def Let_def split: sum.splits dest: new_LowRankDataFrame_post_init)
  from LowRankDataFrame_T_T [OF this] obtain u
    where "LowRankDataFrame_T r = Inr u" "post_init u" by blast
  with t r True show ?thesis
    by (simp add: LowRankDataFrame_reindex_def)
qed

text \<open>
  Claim C9. Whatever \<open>T\<close>, \<open>__getitem__\<close>, \<open>collate_fn\<close> and \<open>reindex\<close> return has passed
  \<open>__post_init__\<close>: the hidden ranks agree, the factor matrices have as many rows as there
  are row and column labels, and the activation is \<open>exp\<close> or \<open>sigmoid\<close>. And these
  assertions do not fail on matrices that satisfy them: the transpose of such a matrix, its
  slice at row indices in range when its row labels are an array, the collation of a
  non-empty batch of such matrices of one hidden rank, and its reindexing along an axis
  with distinct labels all return a matrix.
\<close>

theorem invariants_preserved:
  fixes m :: "'l LowRankDataFrame"
  shows "(\<forall>t. LowRankDataFrame_T m = Inr t \<longrightarrow> post_init t)
       \<and> (\<forall>s. LowRankDataFrame_getitem m key = Inr s \<longrightarrow> post_init s)
       \<and> (\<forall>c. LowRankDataFrame_collate_fn batch = Inr c \<longrightarrow> post_init c)
       \<and> (\<forall>r. LowRankDataFrame_reindex lg m labels axis v = Inr r \<longrightarrow> post_init r)
       \<and> (post_init m \<longrightarrow> (\<exists>t. LowRankDataFrame_T m = Inr t))
       \<and> (post_init m \<and> (\<exists>ix. index m = PdIndex ix)
            \<and> (\<forall>k \<in> set (key_list key). - int (shape0 (ind_logits m)) \<le> k
                                          \<and> k < int (shape0 (ind_logits m)))
          \<longrightarrow> (\<exists>s. LowRankDataFrame_getitem m key = Inr s))
       \<and> (batch \<noteq> []
            \<and> (\<forall>b \<in> set batch. post_init b
                                \<and> shape1 (ind_logits b) = shape1 (ind_logits (hd batch)))
          \<longrightarrow> (\<exists>c. LowRankDataFrame_collate_fn batch = Inr c))
       \<and> (post_init m \<and> distinct (list_of (if axis = 1 then columns m else index m))
          \<longrightarrow> (\<exists>r. LowRankDataFrame_reindex lg m labels axis v = Inr r))"
proof (intro conjI allI impI)
  fix t assume "LowRankDataFrame_T m = Inr t"
  then show "post_init t"
    unfolding LowRankDataFrame_T_def by (rule new_LowRankDataFrame_post_init)
next
  fix s assume "LowRankDataFrame_getitem m key = Inr s"
  then show "post_init s"
    by (auto simp: LowRankDataFrame_getitem_def Let_def split: sum.splits
        dest: new_LowRankDataFrame_post_init)
next
  fix c assume "LowRankDataFrame_collate_fn batch = Inr c"
  then show "post_init c"
    by (auto simp: LowRankDataFrame_collate_fn_def split: list.splits sum.splits
        dest: new_LowRankDataFrame_post_init)
next
  fix r assume "LowRankDataFrame_reindex lg m labels axis v = Inr r"
  then show "post_init r"
    by (auto simp: LowRankDataFrame_reindex_def LowRankDataFrame_T_def reindex_rows_def Let_def
        split: if_splits sum.splits dest: new_LowRankDataFrame_post_init)
next
  assume "post_init m"
  from LowRankDataFrame_T_T [OF this] show "\<exists>t. LowRankDataFrame_T m = Inr t"
    by blast
next
  assume "post_init m \<and> (\<exists>ix. index m = PdIndex ix)
            \<and> (\<forall>k \<in> set (key_list key). - int (shape0 (ind_logits m)) \<le> k
                                          \<and> k < int (shape0 (ind_logits m)))"
  then show "\<exists>s. LowRankDataFrame_getitem m key = Inr s"
    using LowRankDataFrame_getitem_valid [of m _ key] by blast
next
  assume "batch \<noteq> []
            \<and> (\<forall>b \<in> set batch. post_init b
                                \<and> shape1 (ind_logits b) = shape1 (ind_logits (hd batch)))"
  then show "\<exists>c. LowRankDataFrame_collate_fn batch = Inr c"
    using LowRankDataFrame_collate_fn_valid [of batch] by blast
next
  assume "post_init m \<and> distinct (list_of (if axis = 1 then columns m else index m))"
  then show "\<exists>r. LowRankDataFrame_reindex lg m labels axis v = Inr r"
    using LowRankDataFrame_reindex_valid [of m axis lg labels v] by blast
qed

text \<open>A matrix with two rows, labelled by an array: its transpose, its slice at the row 1,
  the collation of the matrix alone, and its rows reindexed to a list of two labels.\<close>

theorem invariants_preserved_witness:
  "(\<exists>t. LowRankDataFrame_T two_by_one = Inr t \<and> post_init t)
   \<and> (\<exists>s. LowRankDataFrame_getitem two_by_one (KInt 1) = Inr s \<and> post_init s)
   \<and> (\<exists>c. LowRankDataFrame_collate_fn [two_by_one] = Inr c \<and> post_init c)
   \<and> (\<exists>r. LowRankDataFrame_reindex ln two_by_one (PyList [''u1'', ''u7'']) 0 (Fin 0) = Inr r
          \<and> post_init r)"
proof -
  have p: "post_init two_by_one"
    by (simp add: two_by_one_def post_init_def shape0_def shape1_def)
  have i: "\<exists>ix. index two_by_one = PdIndex ix"
    by (simp add: two_by_one_def)
  have k: "\<forall>k \<in> set (key_list (KInt 1)). - int (shape0 (ind_logits two_by_one)) \<le> k
                                        \<and> k < int (shape0 (ind_logits two_by_one))"
    by (simp add: key_list_def shape0_def two_by_one_def)
  have b: "[two_by_one] \<noteq> [] \<and> (\<forall>b \<in> set [two_by_one]. post_init b
                          \<and> shape1 (ind_logits b) = shape1 (ind_logits (hd [two_by_one])))"
    using p by simp
  have d: "post_init two_by_one
           \<and> distinct (list_of (if (0::int) = 1 then columns two_by_one else index two_by_one))"
    using p by (simp add: two_by_one_def)
  show ?thesis
    using invariants_preserved
      [of two_by_one "KInt 1" "[two_by_one]" ln "PyList [''u1'', ''u7'']" 0 "Fin 0"] p i k b d
    by blast
qed

subsection \<open>Aggregation without batches\<close>

lemma get_batch_size_no_rows:
  assumes "rnd 0 = Fin 0"
  shows "get_batch_size rnd (0, c) fraction cuda = Inr 0
         \<or> get_batch_size rnd (0, c) fraction cuda = Inl ZeroDivisionError
         \<or> get_batch_size rnd (0, c) fraction cuda = Inl ValueError"
proof (cases "max_batch_size rnd c fraction cuda")
  case (Fin b)
  then show ?thesis
    using assms by (simp add: get_batch_size_def py_int_def)
next
  case PInf
  then show ?thesis
    using assms by (simp add: get_batch_size_def py_int_def)
next
  case NInf
  then show ?thesis
    using assms by (simp add: get_batch_size_def py_int_def)
next
  case NaN
  then show ?thesis
    by (simp add: get_batch_size_def)
qed

lemma score_op_no_rows:
  assumes "rnd 0 = Fin 0" and "expr_shape S = Inr (0, c)"
  shows "score_op rnd S r cuda = Inl ValueError \<or> score_op rnd S r cuda = Inl ZeroDivisionError"
  using get_batch_size_no_rows [where rnd = rnd and c = c and fraction = default_frac and cuda = cuda]
    assms
  by (auto simp: score_op_def score_op_batched_def)

lemma score_loop_Some:
  "score_loop S r out chunks = Inr None \<Longrightarrow> out = None \<and> chunks = []"
proof (induction chunks arbitrary: out)
  case Nil
  then show ?case by simp
next
  case (Cons chunk chunks)
  from Cons.prems obtain new
    where "score_loop S r (Some (case out of None \<Rightarrow> new | Some out' \<Rightarrow> builtin r out' new)) chunks
             = Inr None"
    by (auto split: sum.splits)
  from Cons.IH [OF this] show ?case
    by simp
qed

lemma batch_sampler_Nil:
  assumes "batch_sampler batch_size xs = []" and "0 < batch_size"
  shows "xs = []"
proof (rule ccontr)
  assume "xs \<noteq> []"
  with assms(2) have "batch_sampler batch_size xs
                        = take batch_size xs # batch_sampler batch_size (drop batch_size xs)"
    by (subst batch_sampler.simps) simp
  with assms(1) show False
    by simp
qed

lemma score_op_returns_Some:
  assumes "rnd 0 = Fin 0"
  shows "score_op rnd S r cuda \<noteq> Inr None"
proof
  assume none: "score_op rnd S r cuda = Inr None"
  then obtain n c where sh: "expr_shape S = Inr (n, c)"
    by (cases "expr_shape S") (auto simp: score_op_def)
  from none sh have "\<exists>b. score_op_batched S r b = Inr None"
    by (auto simp: score_op_def split: sum.splits)
  then obtain batch_size where sb: "score_op_batched S r batch_size = Inr None" ..
  have bs: "0 < batch_size"
  proof (rule ccontr)
    assume "\<not> 0 < batch_size"
    then have "score_op_batched S r batch_size = Inl ValueError"
      by (simp add: score_op_batched_def)
    with sb show False
      by simp
  qed
  have loop: "score_loop S r None (batch_sampler (nat batch_size) [0..<n]) = Inr None"
    using sb bs sh by (simp add: score_op_batched_def del: batch_sampler.simps)
  from score_loop_Some [OF loop] have "batch_sampler (nat batch_size) [0..<n] = []"
    by simp
  from batch_sampler_Nil [OF this] bs have "n = 0"
    by simp
  with sh score_op_no_rows [where rnd = rnd and S = S and c = c and r = r and cuda = cuda]
    assms none
  show False
    by auto
qed

text \<open>
  Claim C8. On an expression without rows there is no batch, and \<open>score_op\<close> fails rather
  than return a value: the batch size comes out as 0, which the \<open>DataLoader\<close> refuses with
  a \<open>ValueError\<close> (the error that the specification calls \<open>EmptyOperandError\<close>), unless the
  computation of the batch size has failed before, on a shape without columns or on a
  budget of zero. And \<open>score_op\<close> never returns \<open>None\<close>, the value before the first batch:
  whatever it returns is the reduction of at least one batch. Of the rounding only
  \<open>rnd 0 = 0\<close> is used.
\<close>

theorem score_op_no_batches:
  fixes S :: "'l expr"
  assumes "rnd 0 = Fin 0"
  shows "(expr_shape S = Inr (0, c) \<longrightarrow>
            score_op rnd S r cuda = Inl ValueError \<or> score_op rnd S r cuda = Inl ZeroDivisionError)
         \<and> score_op rnd S r cuda \<noteq> Inr None"
  using score_op_no_rows [where rnd = rnd and S = S and c = c and r = r and cuda = cuda]
    score_op_returns_Some [where rnd = rnd and S = S and r = r and cuda = cuda] assms
  by blast

text \<open>A matrix without rows, with one column: the batch size is 0, and the \<open>DataLoader\<close>
  raises.\<close>

theorem score_op_no_batches_witness:
  "expr_shape (LowRank no_rows) = Inr (0, 1)
   \<and> get_batch_size Fin (0, 1) default_frac None = Inr 0
   \<and> score_op Fin (LowRank no_rows) ReduceMax None = Inl ValueError"
  using score_op_no_batches [of Fin "LowRank no_rows" 1 ReduceMax None]
  by (simp add: no_rows_def LowRankDataFrame_shape_def score_op_def score_op_batched_def
      get_batch_size_def max_batch_size_def default_frac_def Let_def py_int_def)

subsection \<open>Row slices and their collation\<close>

lemma LowRankDataFrame_getitem_rows:
  assumes "post_init m" and ix: "index m = PdIndex ix"
    and range: "\<forall>k \<in> set ks. 0 \<le> k \<and> k < int (shape0 (ind_logits m))"
  shows "LowRankDataFrame_getitem m (KSeq ks) =
           Inr \<lparr>ind_logits = \<lparr>ncols = ncols (ind_logits m),
                                rows = map (\<lambda>k. rows (ind_logits m) ! nat k) ks\<rparr>,
                col_logits = col_logits m,
                index = PdIndex (map (\<lambda>k. ix ! nat k) ks),
                columns = columns m, act = act m\<rparr>"
proof -
  have len: "length ix = length (rows (ind_logits m))"
    using assms(1) ix by (simp add: post_init_def shape0_def)
  have a: "\<forall>k \<in> set ks. - int (length (rows (ind_logits m))) \<le> k
                         \<and> k < int (length (rows (ind_logits m)))"
    using range by (auto simp: shape0_def)
  then have b: "\<forall>k \<in> set ks. - int (length ix) \<le> k \<and> k < int (length ix)"
    by (simp add: len)
  have nonneg: "map (\<lambda>k. xs ! nat (if k < 0 then k + int (length xs) else k)) ks
                  = map (\<lambda>k. xs ! nat k) ks" for xs :: "'b list"
    using range by (intro map_cong) auto
  show ?thesis
    using assms(1)
    by (simp add: LowRankDataFrame_getitem_def Let_def array_getitem_def key_list_def ix
        index_rows_in_range [OF a] index_rows_in_range [OF b] nonneg
        new_LowRankDataFrame_def post_init_def shape0_def shape1_def)
qed

lemma LowRankDataFrame_collate_fn_fields:
  assumes "LowRankDataFrame_collate_fn batch = Inr c"
  shows "rows (ind_logits c) = concat (map (\<lambda>b. rows (ind_logits b)) batch)
         \<and> index c = PyList (concat (map (\<lambda>b. list_of (index b)) batch))
         \<and> col_logits c = col_logits (hd batch)
         \<and> columns c = columns (hd batch)
         \<and> act c = act (hd batch)"
  using assms
  by (auto simp: LowRankDataFrame_collate_fn_def np_vstack_def o_def
      split: list.splits sum.splits if_splits dest!: new_LowRankDataFrame_fields)

lemma concat_map_nth:
  "concat (map (\<lambda>chunk. map (\<lambda>k. xs ! nat k) chunk) chunks) = map (\<lambda>k. xs ! nat k) (concat chunks)"
  by (induction chunks) simp_all

lemma map_nth_upt: "map (\<lambda>k. xs ! nat k) (map int [0..<length xs]) = xs"
  by (simp add: o_def map_nth)

lemma ndarray_eta: "\<lparr>ncols = ncols A, rows = rows A\<rparr> = (A :: ndarray)"
  by (cases A) simp

lemma LowRankDataFrame_index_update:
  "\<lparr>ind_logits = ind_logits m, col_logits = col_logits m, index = ix,
    columns = columns m, act = act m\<rparr> = (m :: 'l LowRankDataFrame)\<lparr>index := ix\<rparr>"
  by (cases m) simp

lemma slices_collate:
  fixes m :: "'l LowRankDataFrame"
  assumes p: "post_init m" and ix: "index m = PdIndex ix" and ne: "chunks \<noteq> []"
    and part: "concat chunks = map int [0..<shape0 (ind_logits m)]"
  shows "\<exists>slices. collect (map (\<lambda>chunk. LowRankDataFrame_getitem m (KSeq chunk)) chunks) = Inr slices
                 \<and> LowRankDataFrame_collate_fn slices = Inr (m\<lparr>index := PyList ix\<rparr>)"
proof -
  let ?slice = "\<lambda>chunk. \<lparr>ind_logits = \<lparr>ncols = ncols (ind_logits m),
                                          rows = map (\<lambda>k. rows (ind_logits m) ! nat k) chunk\<rparr>,
                          col_logits = col_logits m,
                          index = PdIndex (map (\<lambda>k. ix ! nat k) chunk),
                          columns = columns m, act = act m\<rparr>"
  have len: "length ix = length (rows (ind_logits m))"
    using p ix by (simp add: post_init_def shape0_def)
  have range: "\<forall>k \<in> set chunk. 0 \<le> k \<and> k < int (shape0 (ind_logits m))"
    if "chunk \<in> set chunks" for chunk
  proof
    fix k assume "k \<in> set chunk"
    with that have "k \<in> set (concat chunks)" by auto
    then show "0 \<le> k \<and> k < int (shape0 (ind_logits m))"
      unfolding part by auto
  qed
  have "map (\<lambda>chunk. LowRankDataFrame_getitem m (KSeq chunk)) chunks
          = map (\<lambda>chunk. Inr (?slice chunk)) chunks"
    using range by (intro map_cong) (simp_all add: LowRankDataFrame_getitem_rows [OF p ix])
  then have slices: "collect (map (\<lambda>chunk. LowRankDataFrame_getitem m (KSeq chunk)) chunks)
                       = Inr (map ?slice chunks)"
    by (simp only: collect_map_Inr)
  obtain c0 rest where ch: "chunks = c0 # rest"
    using ne by (cases chunks) auto
  have stack: "np_vstack (map ind_logits (map ?slice chunks))
                 = Inr \<lparr>ncols = ncols (ind_logits m),
                        rows = concat (map (\<lambda>chunk. map (\<lambda>k. rows (ind_logits m) ! nat k) chunk) chunks)\<rparr>"
    by (simp add: ch np_vstack_def list_all_iff o_def)
  have rws: "concat (map (\<lambda>chunk. map (\<lambda>k. rows (ind_logits m) ! nat k) chunk) chunks)
               = rows (ind_logits m)"
    unfolding concat_map_nth part shape0_def by (rule map_nth_upt)
  have idx: "concat (map (\<lambda>elm. list_of (index elm)) (map ?slice chunks)) = ix"
  proof -
    have "concat (map (\<lambda>elm. list_of (index elm)) (map ?slice chunks))
            = concat (map (\<lambda>chunk. map (\<lambda>k. ix ! nat k) chunk) chunks)"
      by (simp add: o_def)
    also have "\<dots> = map (\<lambda>k. ix ! nat k) (map int [0..<length ix])"
      unfolding concat_map_nth part shape0_def len ..
    also have "\<dots> = ix"
      by (rule map_nth_upt)
    finally show ?thesis .
  qed
  have pl: "post_init (m\<lparr>index := PyList ix\<rparr>)"
    using p ix by (simp add: post_init_def)
  have "LowRankDataFrame_collate_fn (map ?slice chunks) = Inr (m\<lparr>index := PyList ix\<rparr>)"
    unfolding LowRankDataFrame_collate_fn_def stack rws idx
    using pl
    by (simp add: ch new_LowRankDataFrame_def ndarray_eta LowRankDataFrame_index_update)
  with slices show ?thesis by blast
qed

text \<open>
  Claim C5, as amended. Take a low-rank matrix whose row labels are an array, cut its row
  indices \<open>0 .. R - 1\<close>, in ascending order, into batches (at least one), take the row slice
  of every batch and collate the slices: the result is the matrix itself, with its row
  labels in a Python list, and it evaluates to the same values. In general \<open>collate_fn\<close>
  stacks the row factors of the batch elements, concatenates their row labels into a
  list, and takes the column factors, the column labels and the activation from the first
  element.
\<close>

theorem row_slices_collate:
  fixes m :: "'l LowRankDataFrame"
  shows "(post_init m \<and> index m = PdIndex ix \<and> chunks \<noteq> []
            \<and> concat chunks = map int [0..<shape0 (ind_logits m)] \<longrightarrow>
            (\<exists>slices c.
                collect (map (\<lambda>chunk. LowRankDataFrame_getitem m (KSeq chunk)) chunks) = Inr slices
                \<and> LowRankDataFrame_collate_fn slices = Inr c
                \<and> c = m\<lparr>index := PyList ix\<rparr>
                \<and> LowRankDataFrame_eval c = LowRankDataFrame_eval m))
         \<and> (\<forall>c. LowRankDataFrame_collate_fn batch = Inr c \<longrightarrow>
                rows (ind_logits c) = concat (map (\<lambda>b. rows (ind_logits b)) batch)
                \<and> index c = PyList (concat (map (\<lambda>b. list_of (index b)) batch))
                \<and> col_logits c = col_logits (hd batch)
                \<and> columns c = columns (hd batch)
                \<and> act c = act (hd batch))"
proof (rule conjI)
  have ev: "LowRankDataFrame_eval (m\<lparr>index := PyList ix\<rparr>) = LowRankDataFrame_eval m"
    by (simp add: LowRankDataFrame_eval_def split: sum.splits)
  show "post_init m \<and> index m = PdIndex ix \<and> chunks \<noteq> []
            \<and> concat chunks = map int [0..<shape0 (ind_logits m)] \<longrightarrow>
            (\<exists>slices c.
                collect (map (\<lambda>chunk. LowRankDataFrame_getitem m (KSeq chunk)) chunks) = Inr slices
                \<and> LowRankDataFrame_collate_fn slices = Inr c
                \<and> c = m\<lparr>index := PyList ix\<rparr>
                \<and> LowRankDataFrame_eval c = LowRankDataFrame_eval m)"
    using slices_collate [of m ix chunks] ev by blast
  show "\<forall>c. LowRankDataFrame_collate_fn batch = Inr c \<longrightarrow>
                rows (ind_logits c) = concat (map (\<lambda>b. rows (ind_logits b)) batch)
                \<and> index c = PyList (concat (map (\<lambda>b. list_of (index b)) batch))
                \<and> col_logits c = col_logits (hd batch)
                \<and> columns c = columns (hd batch)
                \<and> act c = act (hd batch)"
    using LowRankDataFrame_collate_fn_fields [of batch] by blast
qed

text \<open>Seven rows, three columns, hidden rank two, in batches of one, three and seven rows.\<close>

theorem row_slices_collate_witness:
  "(\<exists>slices. collect (map (\<lambda>chunk. LowRankDataFrame_getitem seven_by_three (KSeq chunk))
                        [[0], [1], [2], [3], [4], [5], [6]]) = Inr slices
             \<and> LowRankDataFrame_collate_fn slices
                 = Inr (seven_by_three\<lparr>index := PyList [10, 11, 12, 13, 14, 15, 16]\<rparr>))
   \<and> (\<exists>slices. collect (map (\<lambda>chunk. LowRankDataFrame_getitem seven_by_three (KSeq chunk))
                        [[0, 1, 2], [3, 4, 5], [6]]) = Inr slices
             \<and> LowRankDataFrame_collate_fn slices
                 = Inr (seven_by_three\<lparr>index := PyList [10, 11, 12, 13, 14, 15, 16]\<rparr>))
   \<and> (\<exists>slices. collect (map (\<lambda>chunk. LowRankDataFrame_getitem seven_by_three (KSeq chunk))
                        [[0, 1, 2, 3, 4, 5, 6]]) = Inr slices
             \<and> LowRankDataFrame_collate_fn slices
                 = Inr (seven_by_three\<lparr>index := PyList [10, 11, 12, 13, 14, 15, 16]\<rparr>))"
proof -
  have p: "post_init seven_by_three"
    by (simp add: seven_by_three_def post_init_def shape0_def shape1_def)
  have i: "index seven_by_three = PdIndex [10, 11, 12, 13, 14, 15, 16]"
    by (simp add: seven_by_three_def)
  have u: "map int [0..<shape0 (ind_logits seven_by_three)] = [0, 1, 2, 3, 4, 5, 6]"
    by (simp add: seven_by_three_def shape0_def)
  have h: "\<exists>slices. collect (map (\<lambda>chunk. LowRankDataFrame_getitem seven_by_three (KSeq chunk)) chunks)
                       = Inr slices
                 \<and> LowRankDataFrame_collate_fn slices
                     = Inr (seven_by_three\<lparr>index := PyList [10, 11, 12, 13, 14, 15, 16]\<rparr>)"
    if "chunks \<noteq> []" and "concat chunks = [0, 1, 2, 3, 4, 5, 6]" for chunks
    using row_slices_collate [of seven_by_three "[10, 11, 12, 13, 14, 15, 16]" chunks "[]"] p i that
    unfolding u by blast
  show ?thesis
    by (intro conjI h) simp_all
qed

text \<open>
  The claim as stated, for every matrix and any partition, fails. When the row labels are
  a Python list (as those of a collated matrix are) the slice raises, because a list does
  not take a list for an index. When the batches are not in ascending order the rows come
  back in the order of the batches: the two rows of \<open>two_by_one\<close>, sliced as \<open>[1]\<close> and
  \<open>[0]\<close>, are collated into a matrix that evaluates to the rows of the original in reverse.
  And the rows of a matrix without rows are partitioned by no batch at all, which
  \<open>collate_fn\<close> refuses, as it reads the first element of the batch.
\<close>

theorem row_slices_collate_counterexample:
  "LowRankDataFrame_getitem (two_by_one\<lparr>index := PyList [''u0'', ''u1'']\<rparr>) (KSeq [0])
     = Inl TypeError
   \<and> (case collect (map (\<lambda>chunk. LowRankDataFrame_getitem two_by_one (KSeq chunk)) [[1], [0]]) of
        Inl e \<Rightarrow> Inl e
      | Inr slices \<Rightarrow>
          (case LowRankDataFrame_collate_fn slices of
             Inl e \<Rightarrow> Inl e
           | Inr c \<Rightarrow> LowRankDataFrame_eval c))
       = Inr (Arr \<lparr>ncols = 1, rows = [[Fin 1], [Fin (exp 2)]]\<rparr>)
   \<and> LowRankDataFrame_eval two_by_one = Inr (Arr \<lparr>ncols = 1, rows = [[Fin (exp 2)], [Fin 1]]\<rparr>)
   \<and> Fin (exp 2) \<noteq> Fin 1
   \<and> concat ([] :: int list list) = map int [0..<shape0 (ind_logits no_rows)]
   \<and> (case collect (map (\<lambda>chunk. LowRankDataFrame_getitem no_rows (KSeq chunk)) []) of
        Inl e \<Rightarrow> Inl e
      | Inr slices \<Rightarrow> LowRankDataFrame_collate_fn slices)
       = Inl IndexError"
proof (intro conjI)
  show "LowRankDataFrame_getitem (two_by_one\<lparr>index := PyList [''u0'', ''u1'']\<rparr>) (KSeq [0])
          = Inl TypeError"
    by (simp add: two_by_one_def LowRankDataFrame_getitem_def key_list_def array_getitem_def
        index_rows_def)
  show "(case collect (map (\<lambda>chunk. LowRankDataFrame_getitem two_by_one (KSeq chunk)) [[1], [0]]) of
        Inl e \<Rightarrow> Inl e
      | Inr slices \<Rightarrow>
          (case LowRankDataFrame_collate_fn slices of
             Inl e \<Rightarrow> Inl e
           | Inr c \<Rightarrow> LowRankDataFrame_eval c))
       = Inr (Arr \<lparr>ncols = 1, rows = [[Fin 1], [Fin (exp 2)]]\<rparr>)"
    by (simp add: two_by_one_def LowRankDataFrame_getitem_def key_list_def array_getitem_def
        index_rows_def new_LowRankDataFrame_def post_init_def shape0_def shape1_def
        LowRankDataFrame_collate_fn_def np_vstack_def LowRankDataFrame_eval_def matmul_def
        transpose_array_def map_array_def dot_def)
  show "LowRankDataFrame_eval two_by_one = Inr (Arr \<lparr>ncols = 1, rows = [[Fin (exp 2)], [Fin 1]]\<rparr>)"
    by (simp add: two_by_one_def LowRankDataFrame_eval_def matmul_def transpose_array_def
        map_array_def dot_def)
  show "Fin (exp 2) \<noteq> Fin 1"
    by simp
  show "concat ([] :: int list list) = map int [0..<shape0 (ind_logits no_rows)]"
    by (simp add: no_rows_def shape0_def)
  show "(case collect (map (\<lambda>chunk. LowRankDataFrame_getitem no_rows (KSeq chunk)) []) of
        Inl e \<Rightarrow> Inl e
      | Inr slices \<Rightarrow> LowRankDataFrame_collate_fn slices)
       = Inl IndexError"
    by (simp add: LowRankDataFrame_collate_fn_def)
qed

subsection \<open>Addition and multiplication\<close>

lemma rectangular_nth: "rectangular A \<Longrightarrow> i < length (rows A) \<Longrightarrow> length (rows A ! i) = ncols A"
  by (simp add: rectangular_def list_all_length)

lemma array_binop_same_shape:
  assumes "rectangular A" and "rectangular B"
    and "shape0 A = shape0 B" and "ncols A = ncols B"
  shows "\<exists>C. array_binop f A B = Inr C \<and> shape0 C = shape0 A \<and> ncols C = ncols A
             \<and> (\<forall>i<shape0 A. \<forall>j<ncols A. rows C ! i ! j = f (rows A ! i ! j) (rows B ! i ! j))"
proof -
  let ?r = "broadcast_dim (shape0 A) (shape0 B)" and ?c = "broadcast_dim (ncols A) (ncols B)"
  let ?C = "\<lparr>ncols = ?c,
             rows = map2 (\<lambda>ra rb. map2 f (stretch ?c ra) (stretch ?c rb))
                      (stretch ?r (rows A)) (stretch ?r (rows B))\<rparr>"
  have r: "?r = shape0 A" and c: "?c = ncols A"
    using assms(3,4) by (simp_all add: broadcast_dim_def)
  have C: "array_binop f A B = Inr ?C"
    using assms(3,4) by (simp add: array_binop_def broadcastable_def Let_def)
  have sA: "stretch (shape0 A) (rows A) = rows A" and sB: "stretch (shape0 A) (rows B) = rows B"
    using assms(3) by (simp_all add: stretch_def shape0_def)
  have rws: "rows ?C = map2 (\<lambda>ra rb. map2 f (stretch (ncols A) ra) (stretch (ncols A) rb))
                         (rows A) (rows B)"
    unfolding r c sA sB by simp
  have entry: "rows ?C ! i ! j = f (rows A ! i ! j) (rows B ! i ! j)"
    if "i < shape0 A" and "j < ncols A" for i j
  proof -
    have iA: "i < length (rows A)" and iB: "i < length (rows B)"
      using that(1) assms(3) by (simp_all add: shape0_def)
    have lA: "stretch (ncols A) (rows A ! i) = rows A ! i"
      and lB: "stretch (ncols A) (rows B ! i) = rows B ! i"
      using rectangular_nth [OF assms(1) iA] rectangular_nth [OF assms(2) iB] assms(4)
      by (simp_all add: stretch_def)
    have jA: "j < length (rows A ! i)" and jB: "j < length (rows B ! i)"
      using rectangular_nth [OF assms(1) iA] rectangular_nth [OF assms(2) iB] assms(4) that(2)
      by simp_all
    show ?thesis
      unfolding rws using iA iB jA jB by (simp add: lA lB)
  qed
  have "length (rows ?C) = length (rows A)"
    unfolding rws using assms(3) by (simp add: shape0_def)
  then have "shape0 ?C = shape0 A"
    by (simp only: shape0_def)
  moreover have "ncols ?C = ncols A"
    by (simp add: c)
  ultimately show ?thesis
    using C entry by (intro exI [of _ ?C]) blast
qed

lemma LazyScoreExpression_add_Inr:
  "LazyScoreExpression_add self other = Inr e \<Longrightarrow> e = Lazy OpAdd [Expr self, other]"
  by (auto simp: LazyScoreExpression_add_def new_LazyScoreExpression_def split: sum.splits)

lemma LazyScoreExpression_mul_Inr:
  "LazyScoreExpression_mul self other = Inr e \<Longrightarrow> e = Lazy OpMul [Expr self, other]"
  by (auto simp: LazyScoreExpression_mul_def new_LazyScoreExpression_def split: sum.splits)

lemma expr_eval_binary:
  "expr_eval (Lazy OpAdd [a, b]) =
     (case auto_eval a of
        Inl err \<Rightarrow> Inl err
      | Inr x \<Rightarrow> (case auto_eval b of Inl err \<Rightarrow> Inl err | Inr y \<Rightarrow> py_binop fadd x y))"
  "expr_eval (Lazy OpMul [a, b]) =
     (case auto_eval a of
        Inl err \<Rightarrow> Inl err
      | Inr x \<Rightarrow> (case auto_eval b of Inl err \<Rightarrow> Inl err | Inr y \<Rightarrow> py_binop fmul x y))"
  by (simp_all split: sum.splits)

lemma valid_expr_shape:
  fixes c :: "'l operand" and e :: "'l expr"
  shows "\<forall>e0. c = Expr e0 \<longrightarrow> valid_expr e0 \<longrightarrow> (\<exists>s. expr_shape e0 = Inr s)"
    and "valid_expr e \<Longrightarrow> \<exists>s. expr_shape e = Inr s"
proof (induction c and e)
  case (Lazy oper children)
  then obtain e0 rest where ch: "children = Expr e0 # rest"
    by (auto split: list.splits operand.splits)
  with Lazy(2) have "valid_expr e0" by simp
  with Lazy(1) [of "Expr e0"] ch show ?case by simp
qed simp_all

lemma add_multiply_return:
  assumes "valid_expr self"
    and "(\<exists>s. other = Scalar s) \<or> operand_shape other = expr_shape self"
  shows "LazyScoreExpression_add self other = Inr (Lazy OpAdd [Expr self, other])"
    and "LazyScoreExpression_mul self other = Inr (Lazy OpMul [Expr self, other])"
proof -
  from valid_expr_shape(2) [OF assms(1)] obtain r c where s: "expr_shape self = Inr (r, c)"
    by (cases "expr_shape self") auto
  have "check_index_columns self other = Inr ()"
    using assms(2) s by (cases other) (auto simp: check_index_columns_def isclose_def)
  then show "LazyScoreExpression_add self other = Inr (Lazy OpAdd [Expr self, other])"
    and "LazyScoreExpression_mul self other = Inr (Lazy OpMul [Expr self, other])"
    by (simp_all add: LazyScoreExpression_add_def LazyScoreExpression_mul_def
        new_LazyScoreExpression_def)
qed

text \<open>
  Claim C4, as amended. When \<open>a\<close> is an expression (a low-rank matrix or a node) and
  \<open>add(a, b)\<close> returns, its evaluation is numpy's sum of the evaluations of \<open>a\<close> and of \<open>b\<close>,
  and likewise for \<open>multiply\<close> and the product; \<open>b\<close> is a scalar, a dense or sparse matrix,
  a low-rank matrix or a node. Both return when \<open>a\<close> is well formed and \<open>b\<close> is a scalar or
  has the shape of \<open>a\<close>. On two arrays of one shape numpy's operation works entry by entry,
  and with a scalar it combines every entry with the scalar.
\<close>

theorem add_multiply_eval:
  fixes a b :: "'l operand" and self :: "'l expr"
  shows "(\<forall>e. add a b = Inr e \<longrightarrow>
            (\<exists>self. a = Expr self)
            \<and> expr_eval e =
                (case auto_eval a of
                   Inl err \<Rightarrow> Inl err
                 | Inr x \<Rightarrow> (case auto_eval b of Inl err \<Rightarrow> Inl err | Inr y \<Rightarrow> py_binop fadd x y)))
       \<and> (\<forall>e. multiply a b = Inr e \<longrightarrow>
            (\<exists>self. a = Expr self)
            \<and> expr_eval e =
                (case auto_eval a of
                   Inl err \<Rightarrow> Inl err
                 | Inr x \<Rightarrow> (case auto_eval b of Inl err \<Rightarrow> Inl err | Inr y \<Rightarrow> py_binop fmul x y)))
       \<and> (valid_expr self \<and> ((\<exists>s. b = Scalar s) \<or> operand_shape b = expr_shape self) \<longrightarrow>
            (\<exists>e. add (Expr self) b = Inr e) \<and> (\<exists>e. multiply (Expr self) b = Inr e))
       \<and> (rectangular A \<and> rectangular B \<and> shape0 A = shape0 B \<and> ncols A = ncols B \<longrightarrow>
            (\<exists>C. py_binop f (Arr A) (Arr B) = Inr (Arr C)
                 \<and> shape0 C = shape0 A \<and> ncols C = ncols A
                 \<and> (\<forall>i<shape0 A. \<forall>j<ncols A.
                       rows C ! i ! j = f (rows A ! i ! j) (rows B ! i ! j))))
       \<and> py_binop f (Arr A) (Num s) = Inr (Arr (map_array (\<lambda>x. f x s) A))"
proof (intro conjI)
  show "\<forall>e. add a b = Inr e \<longrightarrow>
            (\<exists>self. a = Expr self)
            \<and> expr_eval e =
                (case auto_eval a of
                   Inl err \<Rightarrow> Inl err
                 | Inr x \<Rightarrow> (case auto_eval b of Inl err \<Rightarrow> Inl err | Inr y \<Rightarrow> py_binop fadd x y))"
  proof (intro allI impI)
    fix e assume e: "add a b = Inr e"
    then obtain self where a: "a = Expr self"
      by (cases a) (simp_all add: add_def)
    with e have "e = Lazy OpAdd [Expr self, b]"
      by (simp add: add_def LazyScoreExpression_add_Inr)
    with a show "(\<exists>self. a = Expr self)
            \<and> expr_eval e =
                (case auto_eval a of
                   Inl err \<Rightarrow> Inl err
                 | Inr x \<Rightarrow> (case auto_eval b of Inl err \<Rightarrow> Inl err | Inr y \<Rightarrow> py_binop fadd x y))"
      by (simp only: expr_eval_binary) simp
  qed
  show "\<forall>e. multiply a b = Inr e \<longrightarrow>
            (\<exists>self. a = Expr self)
            \<and> expr_eval e =
                (case auto_eval a of
                   Inl err \<Rightarrow> Inl err
                 | Inr x \<Rightarrow> (case auto_eval b of Inl err \<Rightarrow> Inl err | Inr y \<Rightarrow> py_binop fmul x y))"
  proof (intro allI impI)
    fix e assume e: "multiply a b = Inr e"
    then obtain self where a: "a = Expr self"
      by (cases a) (simp_all add: multiply_def)
    with e have "e = Lazy OpMul [Expr self, b]"
      by (simp add: multiply_def LazyScoreExpression_mul_Inr)
    with a show "(\<exists>self. a = Expr self)
            \<and> expr_eval e =
                (case auto_eval a of
                   Inl err \<Rightarrow> Inl err
                 | Inr x \<Rightarrow> (case auto_eval b of Inl err \<Rightarrow> Inl err | Inr y \<Rightarrow> py_binop fmul x y))"
      by (simp only: expr_eval_binary) simp
  qed
  show "valid_expr self \<and> ((\<exists>s. b = Scalar s) \<or> operand_shape b = expr_shape self) \<longrightarrow>
            (\<exists>e. add (Expr self) b = Inr e) \<and> (\<exists>e. multiply (Expr self) b = Inr e)"
    using add_multiply_return [of self b] by (simp add: add_def multiply_def)
  show "rectangular A \<and> rectangular B \<and> shape0 A = shape0 B \<and> ncols A = ncols B \<longrightarrow>
            (\<exists>C. py_binop f (Arr A) (Arr B) = Inr (Arr C)
                 \<and> shape0 C = shape0 A \<and> ncols C = ncols A
                 \<and> (\<forall>i<shape0 A. \<forall>j<ncols A.
                       rows C ! i ! j = f (rows A ! i ! j) (rows B ! i ! j)))"
  proof
    assume "rectangular A \<and> rectangular B \<and> shape0 A = shape0 B \<and> ncols A = ncols B"
    then obtain C where "array_binop f A B = Inr C" "shape0 C = shape0 A" "ncols C = ncols A"
      "\<forall>i<shape0 A. \<forall>j<ncols A. rows C ! i ! j = f (rows A ! i ! j) (rows B ! i ! j)"
      using array_binop_same_shape [of A B f] by blast
    then show "\<exists>C. py_binop f (Arr A) (Arr B) = Inr (Arr C)
                 \<and> shape0 C = shape0 A \<and> ncols C = ncols A
                 \<and> (\<forall>i<shape0 A. \<forall>j<ncols A.
                       rows C ! i ! j = f (rows A ! i ! j) (rows B ! i ! j))"
      by (intro exI [of _ C]) simp
  qed
  show "py_binop f (Arr A) (Num s) = Inr (Arr (map_array (\<lambda>x. f x s) A))"
    by simp
qed

theorem add_multiply_eval_witness:
  "add (Expr (LowRank two_by_one)) (Dense dense_two_by_one)
     = Inr (Lazy OpAdd [Expr (LowRank two_by_one), Dense dense_two_by_one])
   \<and> expr_eval (Lazy OpAdd [Expr (LowRank two_by_one), Dense dense_two_by_one])
     = Inr (Arr \<lparr>ncols = 1, rows = [[Fin (exp 2 + 5)], [Fin 8]]\<rparr>)
   \<and> multiply (Expr (LowRank two_by_one)) (Scalar (Fin 3))
     = Inr (Lazy OpMul [Expr (LowRank two_by_one), Scalar (Fin 3)])
   \<and> expr_eval (Lazy OpMul [Expr (LowRank two_by_one), Scalar (Fin 3)])
     = Inr (Arr \<lparr>ncols = 1, rows = [[Fin (exp 2 * 3)], [Fin 3]]\<rparr>)"
proof -
  have ev: "expr_eval (LowRank two_by_one) = Inr (Arr \<lparr>ncols = 1, rows = [[Fin (exp 2)], [Fin 1]]\<rparr>)"
    by (simp add: two_by_one_def LowRankDataFrame_eval_def matmul_def transpose_array_def
        map_array_def dot_def)
  have a: "add (Expr (LowRank two_by_one)) (Dense dense_two_by_one)
             = Inr (Lazy OpAdd [Expr (LowRank two_by_one), Dense dense_two_by_one])"
    by (simp add: add_def LazyScoreExpression_add_def check_index_columns_def two_by_one_def
        dense_two_by_one_def LowRankDataFrame_shape_def shape0_def shape1_def isclose_def
        new_LazyScoreExpression_def)
  have m: "multiply (Expr (LowRank two_by_one)) (Scalar (Fin 3))
             = Inr (Lazy OpMul [Expr (LowRank two_by_one), Scalar (Fin 3)])"
    by (simp add: multiply_def LazyScoreExpression_mul_def check_index_columns_def
        new_LazyScoreExpression_def)
  have s: "py_binop fadd (Arr \<lparr>ncols = 1, rows = [[Fin (exp 2)], [Fin 1]]\<rparr>) (Arr dense_two_by_one)
             = Inr (Arr \<lparr>ncols = 1, rows = [[Fin (exp 2 + 5)], [Fin 8]]\<rparr>)"
    by (simp add: array_binop_def broadcastable_def broadcast_dim_def stretch_def shape0_def
        dense_two_by_one_def)
  have p: "py_binop fmul (Arr \<lparr>ncols = 1, rows = [[Fin (exp 2)], [Fin 1]]\<rparr>) (Num (Fin 3))
             = Inr (Arr \<lparr>ncols = 1, rows = [[Fin (exp 2 * 3)], [Fin 3]]\<rparr>)"
    by (simp add: map_array_def)
  have "expr_eval (Lazy OpAdd [Expr (LowRank two_by_one), Dense dense_two_by_one])
          = (case auto_eval (Expr (LowRank two_by_one) :: string operand) of
               Inl err \<Rightarrow> Inl err
             | Inr x \<Rightarrow> (case auto_eval (Dense dense_two_by_one :: string operand) of
                          Inl err \<Rightarrow> Inl err
                        | Inr y \<Rightarrow> py_binop fadd x y))"
    using add_multiply_eval [of "Expr (LowRank two_by_one)" "Dense dense_two_by_one"] a by blast
  then have "expr_eval (Lazy OpAdd [Expr (LowRank two_by_one), Dense dense_two_by_one])
          = Inr (Arr \<lparr>ncols = 1, rows = [[Fin (exp 2 + 5)], [Fin 8]]\<rparr>)"
    by (simp only: auto_eval.simps ev sum.case s)
  moreover have "expr_eval (Lazy OpMul [Expr (LowRank two_by_one), Scalar (Fin 3)])
          = (case auto_eval (Expr (LowRank two_by_one) :: string operand) of
               Inl err \<Rightarrow> Inl err
             | Inr x \<Rightarrow> (case auto_eval (Scalar (Fin 3) :: string operand) of
                          Inl err \<Rightarrow> Inl err
                        | Inr y \<Rightarrow> py_binop fmul x y))"
    using add_multiply_eval [of "Expr (LowRank two_by_one)" "Scalar (Fin 3)"] m by blast
  then have "expr_eval (Lazy OpMul [Expr (LowRank two_by_one), Scalar (Fin 3)])
          = Inr (Arr \<lparr>ncols = 1, rows = [[Fin (exp 2 * 3)], [Fin 3]]\<rparr>)"
    by (simp only: auto_eval.simps ev sum.case p)
  ultimately show ?thesis
    using a m by (simp only: simp_thms)
qed

text \<open>
  The claim as stated, for a pair of operands of any kinds, fails: \<open>add\<close> is a method of
  expressions, and with a scalar on the left (which evaluates, as the matrix on the right
  does) it has no expression to work on.
\<close>

theorem add_multiply_eval_counterexample:
  "add (Scalar (Fin 2)) (Expr (LowRank two_by_one)) = Inl AttributeError
   \<and> multiply (Scalar (Fin 2)) (Expr (LowRank two_by_one)) = Inl AttributeError
   \<and> auto_eval (Scalar (Fin 2) :: string operand) = Inr (Num (Fin 2))
   \<and> auto_eval (Expr (LowRank two_by_one))
       = Inr (Arr \<lparr>ncols = 1, rows = [[Fin (exp 2)], [Fin 1]]\<rparr>)
   \<and> py_binop fadd (Num (Fin 2)) (Arr \<lparr>ncols = 1, rows = [[Fin (exp 2)], [Fin 1]]\<rparr>)
       = Inr (Arr \<lparr>ncols = 1, rows = [[Fin (2 + exp 2)], [Fin 3]]\<rparr>)"
  by (simp add: add_def multiply_def two_by_one_def LowRankDataFrame_eval_def matmul_def
      transpose_array_def map_array_def dot_def)

subsection \<open>Reindexing\<close>

lemma fadd_zero: "fadd x (Fin 0) = x" "fadd (Fin 0) x = x"
  by (cases x; simp)+

lemma fmul_one: "fmul x (Fin 1) = x"
  by (cases x) simp_all

lemma dot_append:
  assumes "length a = length c"
  shows "dot (a @ [x]) (c @ [y]) = fadd (dot a c) (fmul x y)"
  using assms by (simp add: dot_def)

lemma dot_zeros:
  assumes "list_all is_finite c"
  shows "dot (replicate n (Fin 0)) c = Fin 0"
proof -
  have "foldl fadd (Fin 0) (map2 fmul (replicate n (Fin 0)) c) = Fin 0"
    using assms
  proof (induction c arbitrary: n)
    case Nil
    then show ?case by simp
  next
    case (Cons x c)
    then obtain a where "x = Fin a" by (cases x) simp_all
    with Cons show ?case by (cases n) simp_all
  qed
  then show ?thesis by (simp add: dot_def)
qed

lemma fexp_flog:
  assumes "v = NaN \<or> v = PInf \<or> v = Fin 0 \<or> v = Fin 1 \<and> lg 1 = 0"
  shows "fexp (flog lg v) = v"
  using assms by auto

lemma sigmoid_flog:
  assumes "v = NaN \<or> v = Fin 0"
  shows "sigmoid (flog lg v) = v"
  using assms by (auto simp: sigmoid_def)

lemma rectangular_pad: "rectangular A \<Longrightarrow> rectangular (np_pad A 0 1 c)"
  by (simp add: rectangular_def np_pad_def list_all_iff)

lemma reindexed_row:
  assumes rA: "length a = K" and rB: "\<forall>c \<in> set B. length c = K"
  shows "map (\<lambda>c. g (dot (a @ [Fin 0]) c)) (map (\<lambda>c. c @ [Fin 1]) B) = map (\<lambda>c. g (dot a c)) B"
  using assms by (simp add: dot_append fadd_zero)

lemma filled_row:
  assumes "\<forall>c \<in> set B. length c = K \<and> list_all is_finite c"
  shows "map (\<lambda>c. g (dot (replicate K (Fin 0) @ [lv]) c)) (map (\<lambda>c. c @ [Fin 1]) B)
           = replicate (length B) (g lv)"
proof -
  have "g (dot (replicate K (Fin 0) @ [lv]) (c @ [Fin 1])) = g lv" if "c \<in> set B" for c
    using that assms by (simp add: dot_append dot_zeros fadd_zero fmul_one)
  then show ?thesis
    by (simp add: map_replicate_const [symmetric] o_def del: map_replicate_const cong: map_cong)
qed

lemma reindex_eval_rows:
  fixes m :: "'l LowRankDataFrame"
  assumes p: "post_init m" and rA: "rectangular (ind_logits m)" and rB: "rectangular (col_logits m)"
    and d: "distinct (list_of (index m))"
  defines "g \<equiv> (if act m = ''exp'' then fexp else sigmoid)"
  shows "\<exists>r. reindex_rows lg m labels v = Inr r \<and> index r = labels \<and> columns r = columns m
             \<and> act r = act m
             \<and> LowRankDataFrame_eval r =
                 Inr (Arr \<lparr>ncols = length (rows (col_logits m)),
                           rows = map (\<lambda>l. if l \<in> set (list_of (index m))
                                            then map (\<lambda>c. g (dot (rows (ind_logits m)
                                                                   ! nat (position (list_of (index m)) l)) c))
                                                   (rows (col_logits m))
                                            else map (\<lambda>c. g (dot (replicate (ncols (ind_logits m)) (Fin 0)
                                                                     @ [flog lg v]) (c @ [Fin 1])))
                                                   (rows (col_logits m))) (list_of labels)\<rparr>)"
proof -
  let ?K = "ncols (ind_logits m)" and ?ix = "list_of (index m)"
  let ?A = "rows (ind_logits m)" and ?B = "rows (col_logits m)"
  let ?row = "\<lambda>l. if l \<in> set ?ix then ?A ! nat (position ?ix l) @ [Fin 0]
                   else replicate ?K (Fin 0) @ [flog lg v]"
  let ?r = "\<lparr>ind_logits = \<lparr>ncols = ?K + 1, rows = map ?row (list_of labels)\<rparr>,
             col_logits = np_pad (col_logits m) 0 1 (Fin 1),
             index = labels, columns = columns m, act = act m\<rparr>"
  have r: "reindex_rows lg m labels v = Inr ?r"
    using reindex_rows_formula [OF p d] .
  have k: "ncols (col_logits m) = ?K" and len: "length ?ix = length ?A"
    using p by (simp_all add: post_init_def shape0_def shape1_def)
  have pr: "post_init ?r"
    using p by (simp add: post_init_def shape0_def shape1_def np_pad_def)
  have rr: "rectangular (col_logits ?r)"
    using rectangular_pad [OF rB, of "Fin 1"] by simp
  have lenB: "\<forall>c \<in> set ?B. length c = ?K"
    using rB k by (simp add: rectangular_def list_all_iff)
  have present: "map (\<lambda>c. g (dot (?row l) c)) (map (\<lambda>c. c @ [Fin 1]) ?B)
                   = map (\<lambda>c. g (dot (?A ! nat (position ?ix l)) c)) ?B"
    if "l \<in> set ?ix" for l
  proof -
    from position_present(2) [OF that] len
    have "length (?A ! nat (position ?ix l)) = ?K"
      using rectangular_nth [OF rA] by simp
    from reindexed_row [OF this lenB, of g] that show ?thesis by simp
  qed
  have rows: "map (\<lambda>c. g (dot (?row l) c)) (map (\<lambda>c. c @ [Fin 1]) ?B)
                = (if l \<in> set ?ix
                   then map (\<lambda>c. g (dot (?A ! nat (position ?ix l)) c)) ?B
                   else map (\<lambda>c. g (dot (replicate ?K (Fin 0) @ [flog lg v]) (c @ [Fin 1]))) ?B)" for l
    using present [of l] by (simp add: o_def)
  have "LowRankDataFrame_eval ?r =
          Inr (Arr \<lparr>ncols = length ?B,
                    rows = map (\<lambda>l. map (\<lambda>c. g (dot (?row l) c)) (map (\<lambda>c. c @ [Fin 1]) ?B))
                             (list_of labels)\<rparr>)"
    unfolding LowRankDataFrame_eval_dot [OF pr rr] g_def
    by (simp add: np_pad_def o_def)
  then have "LowRankDataFrame_eval ?r =
          Inr (Arr \<lparr>ncols = length ?B,
                    rows = map (\<lambda>l. if l \<in> set ?ix
                                     then map (\<lambda>c. g (dot (?A ! nat (position ?ix l)) c)) ?B
                                     else map (\<lambda>c. g (dot (replicate ?K (Fin 0) @ [flog lg v]) (c @ [Fin 1]))) ?B)
                               (list_of labels)\<rparr>)"
    by (simp only: rows)
  with r show ?thesis
    by (intro exI [of _ ?r]) simp
qed

text \<open>
  Claim C1, as amended. Take a low-rank matrix that passed \<open>__post_init__\<close>, with
  rectangular factor matrices and distinct row labels, and reindex its rows (any axis but 1)
  to a sequence of labels with a fill value \<open>v\<close>. The result carries the new labels and the
  old column labels, and evaluates to a matrix with one row per new label. For a label of
  the original the row is the original's row of that label, with either activation. For a
  label that is not in the original, and finite column factors, every entry of the row is
  the activation of \<open>log v\<close>, as \<^verbatim>\<open>np.log\<close> returns it. That is \<open>v\<close> itself when the
  activation is \<open>exp\<close> and \<open>v\<close> is NaN, \<open>+inf\<close>, zero (by \<open>log 0 = -inf\<close>) or one (by
  \<open>log 1 = 0\<close>), and when the activation is \<open>sigmoid\<close> and \<open>v\<close> is NaN or zero.
\<close>

theorem reindex_fill:
  fixes m :: "'l LowRankDataFrame"
  assumes p: "post_init m" and rA: "rectangular (ind_logits m)" and rB: "rectangular (col_logits m)"
    and d: "distinct (list_of (index m))" and ax: "axis \<noteq> 1"
  shows "\<exists>r Z Z0.
           LowRankDataFrame_reindex lg m labels axis v = Inr r
           \<and> index r = labels \<and> columns r = columns m
           \<and> LowRankDataFrame_eval m = Inr (Arr Z0)
           \<and> LowRankDataFrame_eval r = Inr (Arr Z)
           \<and> length (rows Z) = length (list_of labels)
           \<and> (\<forall>i<length (list_of labels).
                 (list_of labels ! i \<in> set (list_of (index m)) \<longrightarrow>
                    (\<exists>k<length (list_of (index m)).
                        list_of (index m) ! k = list_of labels ! i \<and> rows Z ! i = rows Z0 ! k))
                 \<and> (list_of labels ! i \<notin> set (list_of (index m)) \<and> all_finite (col_logits m) \<longrightarrow>
                    rows Z ! i = replicate (length (list_of (columns m)))
                                   ((if act m = ''exp'' then fexp else sigmoid) (flog lg v))
                    \<and> (act m = ''exp'' \<and> (v = NaN \<or> v = PInf \<or> v = Fin 0 \<or> v = Fin 1 \<and> lg 1 = 0)
                          \<or> act m = ''sigmoid'' \<and> (v = NaN \<or> v = Fin 0) \<longrightarrow>
                        rows Z ! i = replicate (length (list_of (columns m))) v)))"
proof -
  define g where "g = (if act m = ''exp'' then fexp else sigmoid)"
  let ?A = "rows (ind_logits m)" and ?B = "rows (col_logits m)" and ?K = "ncols (ind_logits m)"
  let ?ix = "list_of (index m)" and ?ls = "list_of labels"
  let ?orig = "\<lparr>ncols = length ?B, rows = map (\<lambda>a. map (\<lambda>c. g (dot a c)) ?B) ?A\<rparr>"
  let ?new = "\<lparr>ncols = length ?B,
             rows = map (\<lambda>l. if l \<in> set ?ix
                              then map (\<lambda>c. g (dot (?A ! nat (position ?ix l)) c)) ?B
                              else map (\<lambda>c. g (dot (replicate ?K (Fin 0) @ [flog lg v]) (c @ [Fin 1]))) ?B)
                        ?ls\<rparr>"
  from reindex_eval_rows [OF p rA rB d, where lg = lg and labels = labels and v = v] obtain r
    where r: "reindex_rows lg m labels v = Inr r" "index r = labels" "columns r = columns m"
      and er: "LowRankDataFrame_eval r = Inr (Arr ?new)"
    unfolding g_def by blast
  have e0: "LowRankDataFrame_eval m = Inr (Arr ?orig)"
    unfolding g_def using LowRankDataFrame_eval_dot [OF p rB] .
  have k: "ncols (col_logits m) = ?K" and len: "length ?ix = length ?A"
    and cols: "length ?B = length (list_of (columns m))"
    using p by (simp_all add: post_init_def shape0_def shape1_def)
  have rows: "(?ls ! i \<in> set ?ix \<longrightarrow>
                 (\<exists>k<length ?ix. ?ix ! k = ?ls ! i \<and> rows ?new ! i = rows ?orig ! k))
              \<and> (?ls ! i \<notin> set ?ix \<and> all_finite (col_logits m) \<longrightarrow>
                   rows ?new ! i = replicate (length (list_of (columns m)))
                     ((if act m = ''exp'' then fexp else sigmoid) (flog lg v))
                   \<and> (act m = ''exp'' \<and> (v = NaN \<or> v = PInf \<or> v = Fin 0 \<or> v = Fin 1 \<and> lg 1 = 0)
                         \<or> act m = ''sigmoid'' \<and> (v = NaN \<or> v = Fin 0) \<longrightarrow>
                       rows ?new ! i = replicate (length (list_of (columns m))) v))"
    if i: "i < length ?ls" for i
  proof (rule conjI)
    show "?ls ! i \<in> set ?ix \<longrightarrow>
            (\<exists>k<length ?ix. ?ix ! k = ?ls ! i \<and> rows ?new ! i = rows ?orig ! k)"
    proof
      assume mem: "?ls ! i \<in> set ?ix"
      let ?k = "nat (position ?ix (?ls ! i))"
      from position_present(2,3) [OF mem] have kk: "?k < length ?ix" "?ix ! ?k = ?ls ! i"
        by simp_all
      have "rows ?new ! i = rows ?orig ! ?k"
        using i mem kk(1) len by simp
      with kk show "\<exists>k<length ?ix. ?ix ! k = ?ls ! i \<and> rows ?new ! i = rows ?orig ! k"
        by blast
    qed
    show "?ls ! i \<notin> set ?ix \<and> all_finite (col_logits m) \<longrightarrow>
            rows ?new ! i = replicate (length (list_of (columns m)))
                     ((if act m = ''exp'' then fexp else sigmoid) (flog lg v))
            \<and> (act m = ''exp'' \<and> (v = NaN \<or> v = PInf \<or> v = Fin 0 \<or> v = Fin 1 \<and> lg 1 = 0)
                  \<or> act m = ''sigmoid'' \<and> (v = NaN \<or> v = Fin 0) \<longrightarrow>
                rows ?new ! i = replicate (length (list_of (columns m))) v)"
    proof
      assume a: "?ls ! i \<notin> set ?ix \<and> all_finite (col_logits m)"
      then have fin: "\<forall>c \<in> set ?B. length c = ?K \<and> list_all is_finite c"
        using rB k by (simp add: rectangular_def all_finite_def list_all_iff)
      have "rows ?new ! i = map (\<lambda>c. g (dot (replicate ?K (Fin 0) @ [flog lg v]) c)) (map (\<lambda>c. c @ [Fin 1]) ?B)"
        using i a by (simp add: o_def)
      also have "\<dots> = replicate (length ?B) (g (flog lg v))"
        using filled_row [OF fin] .
      finally have gen': "rows ?new ! i = replicate (length (list_of (columns m))) (g (flog lg v))"
        by (simp only: cols)
      have eq: "g (flog lg v) = (if act m = ''exp'' then fexp else sigmoid) (flog lg v)"
        by (simp only: g_def)
      have gen: "rows ?new ! i = replicate (length (list_of (columns m)))
                     ((if act m = ''exp'' then fexp else sigmoid) (flog lg v))"
        using gen' by (simp only: eq)
      have gv: "(if act m = ''exp'' then fexp else sigmoid) (flog lg v) = v"
        if "act m = ''exp'' \<and> (v = NaN \<or> v = PInf \<or> v = Fin 0 \<or> v = Fin 1 \<and> lg 1 = 0)
            \<or> act m = ''sigmoid'' \<and> (v = NaN \<or> v = Fin 0)"
        using that fexp_flog [of v lg] sigmoid_flog [of v lg] by auto
      show "rows ?new ! i = replicate (length (list_of (columns m)))
                     ((if act m = ''exp'' then fexp else sigmoid) (flog lg v))
            \<and> (act m = ''exp'' \<and> (v = NaN \<or> v = PInf \<or> v = Fin 0 \<or> v = Fin 1 \<and> lg 1 = 0)
                  \<or> act m = ''sigmoid'' \<and> (v = NaN \<or> v = Fin 0) \<longrightarrow>
                rows ?new ! i = replicate (length (list_of (columns m))) v)"
      proof (rule conjI)
        show "rows ?new ! i = replicate (length (list_of (columns m)))
                     ((if act m = ''exp'' then fexp else sigmoid) (flog lg v))"
          by (rule gen)
        show "act m = ''exp'' \<and> (v = NaN \<or> v = PInf \<or> v = Fin 0 \<or> v = Fin 1 \<and> lg 1 = 0)
                  \<or> act m = ''sigmoid'' \<and> (v = NaN \<or> v = Fin 0) \<longrightarrow>
                rows ?new ! i = replicate (length (list_of (columns m))) v"
        proof
          assume c: "act m = ''exp'' \<and> (v = NaN \<or> v = PInf \<or> v = Fin 0 \<or> v = Fin 1 \<and> lg 1 = 0)
                  \<or> act m = ''sigmoid'' \<and> (v = NaN \<or> v = Fin 0)"
          show "rows ?new ! i = replicate (length (list_of (columns m))) v"
            using gen by (simp only: gv [OF c])
        qed
      qed
    qed
  qed
  have re: "LowRankDataFrame_reindex lg m labels axis v = Inr r"
    using r(1) ax by (simp add: LowRankDataFrame_reindex_def)
  have ln: "length (rows ?new) = length ?ls"
    by simp
  have all: "\<forall>i<length ?ls.
                 (?ls ! i \<in> set ?ix \<longrightarrow>
                    (\<exists>k<length ?ix. ?ix ! k = ?ls ! i \<and> rows ?new ! i = rows ?orig ! k))
                 \<and> (?ls ! i \<notin> set ?ix \<and> all_finite (col_logits m) \<longrightarrow>
                    rows ?new ! i = replicate (length (list_of (columns m)))
                     ((if act m = ''exp'' then fexp else sigmoid) (flog lg v))
                    \<and> (act m = ''exp'' \<and> (v = NaN \<or> v = PInf \<or> v = Fin 0 \<or> v = Fin 1 \<and> lg 1 = 0)
                          \<or> act m = ''sigmoid'' \<and> (v = NaN \<or> v = Fin 0) \<longrightarrow>
                        rows ?new ! i = replicate (length (list_of (columns m))) v))"
    using rows by (intro allI impI)
  show ?thesis
    apply (rule exI [of _ r])
    apply (rule exI [of _ ?new])
    apply (rule exI [of _ ?orig])
    apply (intro conjI)
          apply (rule re)
         apply (rule r(2))
        apply (rule r(3))
       apply (rule e0)
      apply (rule er)
     apply (rule ln)
    apply (rule all)
    done
qed

lemmas reindex_defs =
  LowRankDataFrame_reindex_def reindex_rows_def set_last_def np_pad_def series_reindex_def
  position_def array_getitem_def index_rows_def new_LowRankDataFrame_def post_init_def
  LowRankDataFrame_shape_def shape0_def shape1_def Let_def

lemmas eval_defs =
  LowRankDataFrame_eval_def matmul_def transpose_array_def map_array_def dot_def sigmoid_def

text \<open>
  The claim as stated fails in three ways. With the logistic activation the appended row
  is built from \<open>log v\<close> all the same, so that the fill value 1 comes out as
  \<open>sigmoid (log 1) = 1/2\<close>. With the exponential a negative fill value has no logarithm and
  comes out as NaN. And an infinite column factor, multiplied by the zeros of the appended
  row, turns the filled row into NaN. The logarithm is used at 1 only, where it is 0.
\<close>

theorem reindex_fill_counterexample:
  "(case LowRankDataFrame_reindex ln one_by_one_sigmoid (PdIndex [''a'', ''c'']) 0 (Fin 1) of
      Inl e \<Rightarrow> Inl e | Inr r \<Rightarrow> LowRankDataFrame_eval r)
     = Inr (Arr \<lparr>ncols = 1, rows = [[Fin (1 / 2)], [Fin (1 / 2)]]\<rparr>)
   \<and> (case LowRankDataFrame_reindex ln two_by_one (PdIndex [''u0'', ''u9'']) 0 (Fin (- 1)) of
      Inl e \<Rightarrow> Inl e | Inr r \<Rightarrow> LowRankDataFrame_eval r)
     = Inr (Arr \<lparr>ncols = 1, rows = [[Fin (exp 2)], [NaN]]\<rparr>)
   \<and> (case LowRankDataFrame_reindex ln one_by_one_infinite (PdIndex [''a'', ''c'']) 0 (Fin 0) of
      Inl e \<Rightarrow> Inl e | Inr r \<Rightarrow> LowRankDataFrame_eval r)
     = Inr (Arr \<lparr>ncols = 1, rows = [[PInf], [NaN]]\<rparr>)"
proof (intro conjI)
  show "(case LowRankDataFrame_reindex ln one_by_one_sigmoid (PdIndex [''a'', ''c'']) 0 (Fin 1) of
      Inl e \<Rightarrow> Inl e | Inr r \<Rightarrow> LowRankDataFrame_eval r)
     = Inr (Arr \<lparr>ncols = 1, rows = [[Fin (1 / 2)], [Fin (1 / 2)]]\<rparr>)"
    by (simp add: one_by_one_sigmoid_def reindex_defs eval_defs numeral_2_eq_2)
  show "(case LowRankDataFrame_reindex ln two_by_one (PdIndex [''u0'', ''u9'']) 0 (Fin (- 1)) of
      Inl e \<Rightarrow> Inl e | Inr r \<Rightarrow> LowRankDataFrame_eval r)
     = Inr (Arr \<lparr>ncols = 1, rows = [[Fin (exp 2)], [NaN]]\<rparr>)"
    by (simp add: two_by_one_def reindex_defs eval_defs numeral_2_eq_2)
  show "(case LowRankDataFrame_reindex ln one_by_one_infinite (PdIndex [''a'', ''c'']) 0 (Fin 0) of
      Inl e \<Rightarrow> Inl e | Inr r \<Rightarrow> LowRankDataFrame_eval r)
     = Inr (Arr \<lparr>ncols = 1, rows = [[PInf], [NaN]]\<rparr>)"
    by (simp add: one_by_one_infinite_def reindex_defs eval_defs numeral_2_eq_2)
qed

text \<open>The scenario of the specification: the rows \<open>a\<close> and \<open>b\<close> reindexed to \<open>a\<close> and \<open>c\<close>,
  with the fill value 0, with the fill value NaN and with the fill value 1.\<close>

theorem reindex_fill_witness:
  "(\<exists>r Z. LowRankDataFrame_reindex ln two_by_two (PdIndex [''a'', ''c'']) 0 (Fin 0) = Inr r
          \<and> index r = PdIndex [''a'', ''c'']
          \<and> LowRankDataFrame_eval r = Inr (Arr Z)
          \<and> rows Z ! 0 = [Fin (exp 1), Fin (exp 1)] \<and> rows Z ! 1 = [Fin 0, Fin 0])
   \<and> (\<exists>r Z. LowRankDataFrame_reindex ln two_by_two (PdIndex [''a'', ''c'']) 0 NaN = Inr r
          \<and> index r = PdIndex [''a'', ''c'']
          \<and> LowRankDataFrame_eval r = Inr (Arr Z)
          \<and> rows Z ! 0 = [Fin (exp 1), Fin (exp 1)] \<and> rows Z ! 1 = [NaN, NaN])
   \<and> (\<exists>r Z. LowRankDataFrame_reindex ln two_by_two (PdIndex [''a'', ''c'']) 0 (Fin 1) = Inr r
          \<and> index r = PdIndex [''a'', ''c'']
          \<and> LowRankDataFrame_eval r = Inr (Arr Z)
          \<and> rows Z ! 0 = [Fin (exp 1), Fin (exp 1)] \<and> rows Z ! 1 = [Fin 1, Fin 1])"
proof -
  have p: "post_init two_by_two"
    and rA: "rectangular (ind_logits two_by_two)" and rB: "rectangular (col_logits two_by_two)"
    and d: "distinct (list_of (index two_by_two))" and f: "all_finite (col_logits two_by_two)"
    by (simp_all add: two_by_two_def post_init_def shape0_def shape1_def rectangular_def
        all_finite_def)
  have ev: "LowRankDataFrame_eval two_by_two
              = Inr (Arr \<lparr>ncols = 2, rows = [[Fin (exp 1), Fin (exp 1)], [Fin (exp 1), Fin 1]]\<rparr>)"
    by (simp add: two_by_two_def eval_defs numeral_2_eq_2)
  have ix: "list_of (index two_by_two) = [''a'', ''b'']"
    and cs: "list_of (columns two_by_two) = [''x'', ''y'']"
    and a: "act two_by_two = ''exp''"
    by (simp_all add: two_by_two_def)
  have main: "\<exists>r Z. LowRankDataFrame_reindex ln two_by_two (PdIndex [''a'', ''c'']) 0 v = Inr r
          \<and> index r = PdIndex [''a'', ''c'']
          \<and> LowRankDataFrame_eval r = Inr (Arr Z)
          \<and> rows Z ! 0 = [Fin (exp 1), Fin (exp 1)] \<and> rows Z ! 1 = [v, v]"
    if v: "v = NaN \<or> v = PInf \<or> v = Fin 0 \<or> v = Fin 1 \<and> ln (1 :: real) = 0" for v
  proof -
    from reindex_fill [OF p rA rB d, of 0 ln "PdIndex [''a'', ''c'']" v] obtain r Z Z0
      where r: "LowRankDataFrame_reindex ln two_by_two (PdIndex [''a'', ''c'']) 0 v = Inr r"
        "index r = PdIndex [''a'', ''c'']"
        and z0: "LowRankDataFrame_eval two_by_two = Inr (Arr Z0)"
        and z: "LowRankDataFrame_eval r = Inr (Arr Z)"
        and rows: "\<forall>i<length [''a'', ''c''].
                 ([''a'', ''c''] ! i \<in> set (list_of (index two_by_two)) \<longrightarrow>
                    (\<exists>k<length (list_of (index two_by_two)).
                        list_of (index two_by_two) ! k = [''a'', ''c''] ! i
                        \<and> rows Z ! i = rows Z0 ! k))
                 \<and> ([''a'', ''c''] ! i \<notin> set (list_of (index two_by_two))
                     \<and> all_finite (col_logits two_by_two) \<longrightarrow>
                    rows Z ! i = replicate (length (list_of (columns two_by_two)))
                                   ((if act two_by_two = ''exp'' then fexp else sigmoid) (flog ln v))
                    \<and> (act two_by_two = ''exp''
                           \<and> (v = NaN \<or> v = PInf \<or> v = Fin 0 \<or> v = Fin 1 \<and> ln (1 :: real) = 0)
                          \<or> act two_by_two = ''sigmoid'' \<and> (v = NaN \<or> v = Fin 0) \<longrightarrow>
                        rows Z ! i = replicate (length (list_of (columns two_by_two))) v))"
      by auto
    from z0 ev have Z0: "rows Z0 = [[Fin (exp 1), Fin (exp 1)], [Fin (exp 1), Fin 1]]"
      by auto
    from rows have "\<exists>k<length (list_of (index two_by_two)).
                      list_of (index two_by_two) ! k = ''a'' \<and> rows Z ! 0 = rows Z0 ! k"
      by (auto simp: ix)
    then have r0: "rows Z ! 0 = [Fin (exp 1), Fin (exp 1)]"
      by (auto simp: ix Z0 less_Suc_eq)
    from rows f a v have "rows Z ! 1 = replicate (length (list_of (columns two_by_two))) v"
      by (auto simp: ix)
    then have r1: "rows Z ! 1 = [v, v]"
      by (simp add: cs)
    from r z r0 r1 show ?thesis by blast
  qed
  show ?thesis
    using main [of "Fin 0"] main [of NaN] main [of "Fin 1"] by simp
qed

subsection \<open>Aggregation in batches\<close>

lemma fetch_two_by_one_nan:
  "fetch (LowRank two_by_one_nan) [0]
     = Inr (LowRank \<lparr>ind_logits = \<lparr>ncols = 2, rows = [[Fin 1, Fin 0]]\<rparr>,
                     col_logits = \<lparr>ncols = 2, rows = [[Fin 2, Fin 1]]\<rparr>,
                     index = PyList [''u0''], columns = PdIndex [''i0''], act = ''exp''\<rparr>)"
  "fetch (LowRank two_by_one_nan) [1]
     = Inr (LowRank \<lparr>ind_logits = \<lparr>ncols = 2, rows = [[Fin 0, NaN]]\<rparr>,
                     col_logits = \<lparr>ncols = 2, rows = [[Fin 2, Fin 1]]\<rparr>,
                     index = PyList [''u9''], columns = PdIndex [''i0''], act = ''exp''\<rparr>)"
  by (simp_all add: fetch_def two_by_one_nan_def LowRankDataFrame_getitem_def key_list_def
      array_getitem_def index_rows_def new_LowRankDataFrame_def post_init_def shape0_def shape1_def
      LowRankDataFrame_collate_fn_def np_vstack_def)

lemma fetch_nan_two_by_one:
  "fetch (LowRank nan_two_by_one) [0]
     = Inr (LowRank \<lparr>ind_logits = \<lparr>ncols = 2, rows = [[Fin 0, NaN]]\<rparr>,
                     col_logits = \<lparr>ncols = 2, rows = [[Fin 2, Fin 1]]\<rparr>,
                     index = PyList [''u9''], columns = PdIndex [''i0''], act = ''exp''\<rparr>)"
  "fetch (LowRank nan_two_by_one) [1]
     = Inr (LowRank \<lparr>ind_logits = \<lparr>ncols = 2, rows = [[Fin 1, Fin 0]]\<rparr>,
                     col_logits = \<lparr>ncols = 2, rows = [[Fin 2, Fin 1]]\<rparr>,
                     index = PyList [''u0''], columns = PdIndex [''i0''], act = ''exp''\<rparr>)"
  by (simp_all add: fetch_def nan_two_by_one_def LowRankDataFrame_getitem_def key_list_def
      array_getitem_def index_rows_def new_LowRankDataFrame_def post_init_def shape0_def shape1_def
      LowRankDataFrame_collate_fn_def np_vstack_def)

lemma batch_sampler_one_two: "batch_sampler (Suc 0) [0, Suc 0] = [[0], [Suc 0]]"
  by simp

lemmas eval_defs' =
  LowRankDataFrame_eval_def matmul_def transpose_array_def map_array_def dot_def numeral_2_eq_2

text \<open>
  Claim C3 fails on the code where an entry of the evaluated expression is NaN. Within a
  batch the reduction is \<open>ndarray.max\<close>, which gives NaN as soon as an entry is NaN; across
  batches it is Python's \<open>max\<close>, which keeps its first argument unless the second one
  compares greater, and nothing compares greater or smaller than NaN. The matrix below is
  \<open>two_by_one\<close> reindexed with the default fill value NaN. Evaluated whole, its maximum is
  NaN; in batches of one row \<open>score_op\<close> returns \<open>exp 2\<close>, with the batch size given or
  computed from an accelerator of 80 bytes (it is 1 with and without rounding); with the
  two rows in the other order it returns NaN.
\<close>

theorem score_op_nan:
  "LowRankDataFrame_reindex lg two_by_one (PdIndex [''u0'', ''u9'']) 0 NaN = Inr two_by_one_nan
   \<and> LowRankDataFrame_reindex lg two_by_one (PdIndex [''u9'', ''u0'']) 0 NaN = Inr nan_two_by_one
   \<and> evaluate_then_reduce (LowRank two_by_one_nan) ReduceMax = Inr NaN
   \<and> score_op_batched (LowRank two_by_one_nan) ReduceMax 1 = Inr (Some (Fin (exp 2)))
   \<and> score_op Fin (LowRank two_by_one_nan) ReduceMax (Some 80) = Inr (Some (Fin (exp 2)))
   \<and> evaluate_then_reduce (LowRank nan_two_by_one) ReduceMax = Inr NaN
   \<and> score_op_batched (LowRank nan_two_by_one) ReduceMax 1 = Inr (Some NaN)"
proof (intro conjI)
  show "LowRankDataFrame_reindex lg two_by_one (PdIndex [''u0'', ''u9'']) 0 NaN = Inr two_by_one_nan"
    by (simp add: two_by_one_def two_by_one_nan_def reindex_defs)
  show "LowRankDataFrame_reindex lg two_by_one (PdIndex [''u9'', ''u0'']) 0 NaN = Inr nan_two_by_one"
    by (simp add: two_by_one_def nan_two_by_one_def reindex_defs)
  show "evaluate_then_reduce (LowRank two_by_one_nan) ReduceMax = Inr NaN"
    by (simp add: evaluate_then_reduce_def two_by_one_nan_def eval_defs' array_reduce_def
        np_maximum_def)
  show b: "score_op_batched (LowRank two_by_one_nan) ReduceMax 1 = Inr (Some (Fin (exp 2)))"
    unfolding score_op_batched_def
    by (simp add: LowRankDataFrame_shape_def two_by_one_nan_def [THEN arg_cong, of "\<lambda>m. length (rows (ind_logits m))"]
        fetch_two_by_one_nan [simplified] eval_defs' array_reduce_def)
  have g: "get_batch_size Fin (2, 1) default_frac (Some 80) = Inr 1"
    by (simp add: get_batch_size_def max_batch_size_def default_frac_def py_int_def)
  have sh: "expr_shape (LowRank two_by_one_nan) = Inr (2, 1)"
    by (simp add: LowRankDataFrame_shape_def two_by_one_nan_def)
  show "score_op Fin (LowRank two_by_one_nan) ReduceMax (Some 80) = Inr (Some (Fin (exp 2)))"
    unfolding score_op_def sh by (simp only: sum.case g b)
  show "evaluate_then_reduce (LowRank nan_two_by_one) ReduceMax = Inr NaN"
    by (simp add: evaluate_then_reduce_def nan_two_by_one_def eval_defs' array_reduce_def
        np_maximum_def)
  show "score_op_batched (LowRank nan_two_by_one) ReduceMax 1 = Inr (Some NaN)"
    unfolding score_op_batched_def
    by (simp add: LowRankDataFrame_shape_def nan_two_by_one_def [THEN arg_cong, of "\<lambda>m. length (rows (ind_logits m))"]
        fetch_nan_two_by_one [simplified] eval_defs' array_reduce_def)
qed

end
